theory Spec2Isabelle
  imports Complex_Main
begin

section \<open>Python values\<close>

text \<open>
  \<open>create_invoice_summary_tables\<close> (src/Invoices/utilities.py) is duck-typed: it asks
  its arguments whether they are lists or dicts, whether they carry an attribute, and
  whether they are truthy. The model therefore works on a universe of Python values.

  \<^item> \<open>PDict items attrs\<close> is a \<open>dict\<close> or an instance of a subclass of \<open>dict\<close>:
    \<open>items\<close> are its key/value entries (string keys, looked up with \<open>map_of\<close>) and
    \<open>attrs\<close> its instance attributes, empty for a plain \<open>dict\<close>.
  \<^item> \<open>PObj attrs its\<close> is an instance of any other class: it has the attributes
    \<open>attrs\<close>; \<open>its\<close> is \<open>None\<close> when the class is not iterable and \<open>Some vs\<close> when
    iterating the object yields \<open>vs\<close>. A response object of the extraction service is a
    pydantic model, which iterates over its (field name, value) pairs: see \<open>pydantic\<close>.
    The class defines neither \<open>__bool__\<close> nor \<open>__len__\<close>, so the object is truthy.
  \<^item> \<open>PFloat\<close> is a finite float and \<open>PNaN\<close> the float \<open>nan\<close>, which pandas puts
    where a numeric column has no value. The function itself never computes with numbers.
\<close>

datatype pyval =
    PNone
  | PBool bool
  | PInt int
  | PFloat real
  | PNaN
  | PStr string
  | PList "pyval list"
  | PTuple "pyval list"
  | PDict "(string \<times> pyval) list" "(string \<times> pyval) list"
  | PObj "(string \<times> pyval) list" "pyval list option"

definition pydantic :: "(string \<times> pyval) list \<Rightarrow> pyval" where
  "pydantic fields = PObj fields (Some (map (\<lambda>(name, v). PTuple [PStr name, v]) fields))"

text \<open>
  The exceptions the function can raise. \<open>ValueError\<close> carries its message,
  \<open>AttributeError\<close> the name of the missing attribute, \<open>TypeError\<close> a short
  description. The \<open>ValueError\<close> of a failed tuple unpacking carries the head of
  Python's message.
\<close>

datatype error = ValueError string | AttributeError string | TypeError string

type_synonym row = "(string \<times> pyval) list"

text \<open>
  A table is the list of its rows, each row the list of its (column, value) cells: the
  list of dicts that the code accumulates, and the records of the frame made from it.
\<close>

type_synonym table = "row list"

type_synonym tables = "table \<times> table \<times> table \<times> table"

subsection \<open>Builtins\<close>

fun isinstance_list :: "pyval \<Rightarrow> bool" where
  "isinstance_list (PList xs) = True"
| "isinstance_list _ = False"

fun isinstance_dict :: "pyval \<Rightarrow> bool" where
  "isinstance_dict (PDict items attrs) = True"
| "isinstance_dict _ = False"

text \<open>
  Instance attributes. None of the attribute names the function reads (\<open>metadata\<close>,
  \<open>filename\<close>, \<open>version\<close>, \<open>markdown\<close>, \<open>chunks\<close>, \<open>grounding\<close>, \<open>box\<close>, \<open>page\<close>,
  \<open>id\<close>, \<open>type\<close>, \<open>left\<close>, \<open>top\<close>, \<open>right\<close>, \<open>bottom\<close>, \<open>extraction\<close> and the
  eight line-item fields) is an attribute of \<open>None\<close>, \<open>bool\<close>, \<open>int\<close>, \<open>float\<close>,
  \<open>str\<close>, \<open>list\<close>, \<open>tuple\<close> or \<open>dict\<close>, so on those values every lookup misses.
\<close>

fun attrs_of :: "pyval \<Rightarrow> (string \<times> pyval) list" where
  "attrs_of (PObj attrs its) = attrs"
| "attrs_of (PDict items attrs) = attrs"
| "attrs_of _ = []"

definition hasattr :: "pyval \<Rightarrow> string \<Rightarrow> bool" where
  "hasattr x name = (map_of (attrs_of x) name \<noteq> None)"

text \<open>\<open>x.name\<close>: raises \<open>AttributeError\<close> when the attribute is missing.\<close>

definition getattr :: "pyval \<Rightarrow> string \<Rightarrow> error + pyval" where
  "getattr x name =
     (case map_of (attrs_of x) name of
        Some v \<Rightarrow> Inr v
      | None \<Rightarrow> Inl (AttributeError name))"

text \<open>
  \<open>getattr(x, name, default)\<close>, which is also the value of the idiom
  \<open>x.name if hasattr(x, name) else default\<close>.
\<close>

definition getattr_default :: "pyval \<Rightarrow> string \<Rightarrow> pyval \<Rightarrow> pyval" where
  "getattr_default x name dflt =
     (case map_of (attrs_of x) name of
        Some v \<Rightarrow> v
      | None \<Rightarrow> dflt)"

text \<open>\<open>d.get(key)\<close> on a dict.\<close>

fun dict_get :: "pyval \<Rightarrow> string \<Rightarrow> pyval" where
  "dict_get (PDict items attrs) key =
     (case map_of items key of Some v \<Rightarrow> v | None \<Rightarrow> PNone)"
| "dict_get _ key = PNone"

text \<open>Truth value testing.\<close>

fun truthy :: "pyval \<Rightarrow> bool" where
  "truthy PNone = False"
| "truthy (PBool b) = b"
| "truthy (PInt i) = (i \<noteq> 0)"
| "truthy (PFloat r) = (r \<noteq> 0)"
| "truthy PNaN = True"
| "truthy (PStr s) = (s \<noteq> [])"
| "truthy (PList xs) = (xs \<noteq> [])"
| "truthy (PTuple xs) = (xs \<noteq> [])"
| "truthy (PDict items attrs) = (items \<noteq> [])"
| "truthy (PObj attrs its) = True"

text \<open>\<open>a or b\<close>.\<close>

definition py_or :: "pyval \<Rightarrow> pyval \<Rightarrow> pyval" where
  "py_or a b = (if truthy a then a else b)"

text \<open>
  What a \<open>for\<close> loop (or a tuple unpacking) draws from a value: the elements of a list
  or tuple, the characters of a string, the keys of a dict, what an iterable object
  yields; anything else is not iterable.
\<close>

fun iterate :: "pyval \<Rightarrow> error + pyval list" where
  "iterate (PList xs) = Inr xs"
| "iterate (PTuple xs) = Inr xs"
| "iterate (PStr s) = Inr (map (\<lambda>c. PStr [c]) s)"
| "iterate (PDict items attrs) = Inr (map PStr (remdups (map fst items)))"
| "iterate (PObj attrs (Some vs)) = Inr vs"
| "iterate _ = Inl (TypeError ''object is not iterable'')"

text \<open>\<open>parse_result, extract_result = x\<close>, the unpacking in the head of the loop.\<close>

definition unpack2 :: "pyval \<Rightarrow> error + (pyval \<times> pyval)" where
  "unpack2 x =
     (case iterate x of
        Inl e \<Rightarrow> Inl e
      | Inr vs \<Rightarrow>
          (case vs of
             [a, b] \<Rightarrow> Inr (a, b)
           | _ \<Rightarrow>
               if length vs < 2 then Inl (ValueError ''not enough values to unpack'')
               else Inl (ValueError ''too many values to unpack'')))"

subsection \<open>\<open>pandas.DataFrame\<close> of a list of row dicts\<close>

text \<open>
  The library is not part of the repository; this is a model of what its constructor
  does with a list of dicts whose values are the Python values above. A frame has one
  column per key, in the order of first appearance, and one row per dict; a key that a
  dict lacks gives \<open>nan\<close>. Each column is then given a dtype by one scan of its values
  (\<open>maybe_convert_objects\<close>), which records what it has seen and stops at the first
  string or other object:
  \<^item> a column with a string or any other object, or with a bool next to anything else,
    keeps its values as they are (dtype \<open>object\<close>); so does a column of \<open>None\<close> only;
  \<^item> a column of ints only keeps them (\<open>int64\<close> or \<open>uint64\<close>; \<open>object\<close> when an int
    does not fit or negative ints meet ints above the \<open>int64\<close> range);
  \<^item> a column of floats and ints, or of ints or floats next to \<open>None\<close> or \<open>nan\<close>,
    becomes \<open>float64\<close>: every int is converted to the nearest float and every \<open>None\<close>
    to \<open>nan\<close>.
  A frame is represented by its records, the row dicts with the converted values. Ints
  of a magnitude beyond the range of \<open>float64\<close> are outside this model.
\<close>

record seen =
  seen_null :: bool
  seen_nan :: bool
  seen_bool :: bool
  seen_float :: bool
  seen_int :: bool
  seen_uint :: bool
  seen_sint :: bool
  seen_object :: bool

definition seen_nothing :: seen where
  "seen_nothing =
     \<lparr>seen_null = False, seen_nan = False, seen_bool = False, seen_float = False, seen_int = False,
      seen_uint = False, seen_sint = False, seen_object = False\<rparr>"

definition saw_int :: "int \<Rightarrow> seen \<Rightarrow> seen" where
  "saw_int i s =
     s\<lparr>seen_int := True,
       seen_sint := seen_sint s \<or> i < 0,
       seen_uint := seen_uint s \<or> (2 ^ 63 - 1 < i \<and> i \<le> 2 ^ 64 - 1)\<rparr>"

fun scan :: "seen \<Rightarrow> pyval list \<Rightarrow> seen" where
  "scan s [] = s"
| "scan s (PNone # vs) = scan (s\<lparr>seen_null := True\<rparr>) vs"
| "scan s (PNaN # vs) = scan (s\<lparr>seen_nan := True\<rparr>) vs"
| "scan s (PBool b # vs) = scan (s\<lparr>seen_bool := True\<rparr>) vs"
| "scan s (PFloat r # vs) = scan (s\<lparr>seen_float := True\<rparr>) vs"
| "scan s (PInt i # vs) =
     (if seen_null s then scan (s\<lparr>seen_int := True\<rparr>) vs
      else if (seen_uint (saw_int i s) \<and> seen_sint (saw_int i s)) \<or> 2 ^ 64 - 1 < i \<or> i < - (2 ^ 63)
      then (saw_int i s)\<lparr>seen_object := True\<rparr>
      else scan (saw_int i s) vs)"
| "scan s (v # vs) = s\<lparr>seen_object := True\<rparr>"

text \<open>The nearest \<open>float64\<close> of an int, ties to the even mantissa of 53 bits.\<close>

fun bit_length :: "nat \<Rightarrow> nat" where
  "bit_length n = (if n = 0 then 0 else Suc (bit_length (n div 2)))"

definition float64_of_int :: "int \<Rightarrow> real" where
  "float64_of_int i =
     (let m = nat \<bar>i\<bar>;
          e = bit_length m - 53;
          q = m div 2 ^ e;
          r = m mod 2 ^ e;
          q' = (if 2 ^ e < 2 * r \<or> (2 * r = 2 ^ e \<and> odd q) then q + 1 else q)
      in (if i < 0 then - real (q' * 2 ^ e) else real (q' * 2 ^ e)))"

fun to_float :: "pyval \<Rightarrow> pyval" where
  "to_float PNone = PNaN"
| "to_float (PInt i) = PFloat (float64_of_int i)"
| "to_float v = v"

definition convert_column :: "pyval list \<Rightarrow> pyval list" where
  "convert_column vs =
     (let s = scan seen_nothing vs in
      if seen_bool s \<or> seen_object s then vs
      else if seen_null s \<or> seen_nan s
      then (if seen_float s \<or> seen_int s \<or> seen_nan s then map to_float vs else vs)
      else if seen_float s then map to_float vs
      else vs)"

definition cell :: "string \<Rightarrow> row \<Rightarrow> pyval" where
  "cell c r = (case map_of r c of Some v \<Rightarrow> v | None \<Rightarrow> PNaN)"

definition DataFrame :: "row list \<Rightarrow> table" where
  "DataFrame rows =
     (let columns = rev (remdups (rev (concat (map (map fst) rows))))
      in map (\<lambda>i. map (\<lambda>c. (c, convert_column (map (cell c) rows) ! i)) columns)
           [0..<length rows])"

section \<open>The normalizer\<close>

subsection \<open>\<open>safe_get\<close>, lines 326 to 332\<close>

fun safe_get :: "pyval \<Rightarrow> string list \<Rightarrow> pyval" where
  "safe_get d [] = d"
| "safe_get (PDict items attrs) (key # keys) =
     (case map_of items key of
        Some v \<Rightarrow> safe_get v keys
      | None \<Rightarrow> PNone)"
| "safe_get d (key # keys) = PNone"

subsection \<open>The rows\<close>

definition markdown_row :: "pyval \<Rightarrow> pyval \<Rightarrow> pyval \<Rightarrow> pyval \<Rightarrow> pyval \<Rightarrow> row" where
  "markdown_row run_id invoice_uuid document_name agentic_doc_version markdown =
     [(''RUN_ID'', run_id),
      (''INVOICE_UUID'', invoice_uuid),
      (''DOCUMENT_NAME'', document_name),
      (''AGENTIC_DOC_VERSION'', agentic_doc_version),
      (''MARKDOWN'', markdown)]"

definition chunk_row :: "pyval \<Rightarrow> pyval \<Rightarrow> pyval \<Rightarrow> pyval \<Rightarrow> row" where
  "chunk_row run_id invoice_uuid document_name chunk =
     (let grounding = getattr_default chunk ''grounding'' PNone;
          box = (if truthy grounding \<and> hasattr grounding ''box''
                 then getattr_default grounding ''box'' PNone else PNone);
          page = (if truthy grounding \<and> hasattr grounding ''page''
                  then getattr_default grounding ''page'' PNone else PNone);
          text = getattr_default chunk ''markdown'' (PStr '''')
      in [(''RUN_ID'', run_id),
          (''INVOICE_UUID'', invoice_uuid),
          (''DOCUMENT_NAME'', document_name),
          (''chunk_id'', getattr_default chunk ''id'' PNone),
          (''chunk_type'', getattr_default chunk ''type'' PNone),
          (''text'', text),
          (''page'', page),
          (''box_l'', if truthy box \<and> hasattr box ''left''
                      then getattr_default box ''left'' PNone else PNone),
          (''box_t'', if truthy box \<and> hasattr box ''top''
                      then getattr_default box ''top'' PNone else PNone),
          (''box_r'', if truthy box \<and> hasattr box ''right''
                      then getattr_default box ''right'' PNone else PNone),
          (''box_b'', if truthy box \<and> hasattr box ''bottom''
                      then getattr_default box ''bottom'' PNone else PNone)])"

definition main_data :: "pyval \<Rightarrow> pyval \<Rightarrow> pyval \<Rightarrow> pyval \<Rightarrow> pyval \<Rightarrow> row" where
  "main_data run_id invoice_uuid document_name agentic_doc_version extraction =
     [(''RUN_ID'', run_id),
      (''INVOICE_UUID'', invoice_uuid),
      (''DOCUMENT_NAME'', document_name),
      (''AGENTIC_DOC_VERSION'', agentic_doc_version),
      (''INVOICE_DATE_RAW'', safe_get extraction [''invoice_info'', ''invoice_date_raw'']),
      (''INVOICE_DATE'', safe_get extraction [''invoice_info'', ''invoice_date'']),
      (''INVOICE_NUMBER'', safe_get extraction [''invoice_info'', ''invoice_number'']),
      (''ORDER_DATE'', safe_get extraction [''invoice_info'', ''order_date'']),
      (''PO_NUMBER'', safe_get extraction [''invoice_info'', ''po_number'']),
      (''STATUS'', safe_get extraction [''invoice_info'', ''status'']),
      (''SOLD_TO_NAME'', safe_get extraction [''customer_info'', ''sold_to_name'']),
      (''SOLD_TO_ADDRESS'', safe_get extraction [''customer_info'', ''sold_to_address'']),
      (''CUSTOMER_EMAIL'', safe_get extraction [''customer_info'', ''customer_email'']),
      (''SUPPLIER_NAME'', safe_get extraction [''company_info'', ''supplier_name'']),
      (''SUPPLIER_ADDRESS'', safe_get extraction [''company_info'', ''supplier_address'']),
      (''REPRESENTATIVE'', safe_get extraction [''company_info'', ''representative'']),
      (''EMAIL'', safe_get extraction [''company_info'', ''email'']),
      (''PHONE'', safe_get extraction [''company_info'', ''phone'']),
      (''GSTIN'', safe_get extraction [''company_info'', ''gstin'']),
      (''PAN'', safe_get extraction [''company_info'', ''pan'']),
      (''PAYMENT_TERMS'', safe_get extraction [''order_details'', ''payment_terms'']),
      (''SHIP_VIA'', safe_get extraction [''order_details'', ''ship_via'']),
      (''SHIP_DATE'', safe_get extraction [''order_details'', ''ship_date'']),
      (''TRACKING_NUMBER'', safe_get extraction [''order_details'', ''tracking_number'']),
      (''CURRENCY'', safe_get extraction [''totals_summary'', ''currency'']),
      (''TOTAL_DUE_RAW'', safe_get extraction [''totals_summary'', ''total_due_raw'']),
      (''TOTAL_DUE'', safe_get extraction [''totals_summary'', ''total_due'']),
      (''SUBTOTAL'', safe_get extraction [''totals_summary'', ''subtotal'']),
      (''TAX'', safe_get extraction [''totals_summary'', ''tax'']),
      (''SHIPPING'', safe_get extraction [''totals_summary'', ''shipping'']),
      (''HANDLING_FEE'', safe_get extraction [''totals_summary'', ''handling_fee''])]"

text \<open>
  The expression the source writes once per line-item column:
  \<open>item.get(name) if isinstance(item, dict) else getattr(item, name, None)\<close>.
\<close>

definition item_field :: "pyval \<Rightarrow> string \<Rightarrow> pyval" where
  "item_field item name =
     (if isinstance_dict item then dict_get item name
      else getattr_default item name PNone)"

definition line_item_row ::
  "pyval \<Rightarrow> pyval \<Rightarrow> pyval \<Rightarrow> pyval \<Rightarrow> nat \<Rightarrow> pyval \<Rightarrow> row" where
  "line_item_row run_id invoice_uuid document_name agentic_doc_version idx item =
     [(''RUN_ID'', run_id),
      (''INVOICE_UUID'', invoice_uuid),
      (''DOCUMENT_NAME'', document_name),
      (''AGENTIC_DOC_VERSION'', agentic_doc_version),
      (''LINE_INDEX'', PInt (int idx)),
      (''LINE_NUMBER'', item_field item ''line_number''),
      (''SKU'', item_field item ''sku''),
      (''DESCRIPTION'', item_field item ''description''),
      (''QUANTITY'', item_field item ''quantity''),
      (''UNIT_PRICE'', item_field item ''unit_price''),
      (''PRICE'', item_field item ''price''),
      (''AMOUNT'', item_field item ''amount''),
      (''TOTAL'', item_field item ''total'')]"

subsection \<open>One pass of the loop body, lines 276 to 401\<close>

text \<open>
  \<open>doc_chunks\<close> is what \<open>for chunk in parse_result.chunks\<close> runs over and
  \<open>doc_line_items\<close> what \<open>for idx, item in enumerate(line_items)\<close> runs over, with
  \<open>extraction\<close> defaulting to the empty dict and \<open>line_items\<close> to the empty list.
\<close>

definition doc_chunks :: "pyval \<Rightarrow> error + pyval list" where
  "doc_chunks parse_result =
     (case getattr parse_result ''chunks'' of
        Inl e \<Rightarrow> Inl e
      | Inr chunks \<Rightarrow> iterate chunks)"

definition doc_extraction :: "pyval \<Rightarrow> pyval" where
  "doc_extraction extract_result = getattr_default extract_result ''extraction'' (PDict [] [])"

definition doc_line_items :: "pyval \<Rightarrow> error + pyval list" where
  "doc_line_items extract_result =
     iterate (py_or (safe_get (doc_extraction extract_result) [''line_items'']) (PList []))"

text \<open>
  The rows one document adds to the four accumulators, in the order of the source:
  \<open>parse_result.metadata\<close>, \<open>parse_result.markdown\<close> and \<open>parse_result.chunks\<close> are
  read without a guard and raise when missing; everything else is guarded.
\<close>

definition doc_tables :: "pyval \<Rightarrow> pyval \<Rightarrow> pyval \<Rightarrow> pyval \<Rightarrow> error + tables" where
  "doc_tables run_id invoice_uuid parse_result extract_result =
     (case getattr parse_result ''metadata'' of
        Inl e \<Rightarrow> Inl e
      | Inr metadata \<Rightarrow>
     let document_name = getattr_default metadata ''filename'' (PStr ''unknown'');
         agentic_doc_version = getattr_default metadata ''version'' (PStr ''unknown'')
     in
     (case getattr parse_result ''markdown'' of
        Inl e \<Rightarrow> Inl e
      | Inr markdown \<Rightarrow>
     (case doc_chunks parse_result of
        Inl e \<Rightarrow> Inl e
      | Inr chunks \<Rightarrow>
     (case doc_line_items extract_result of
        Inl e \<Rightarrow> Inl e
      | Inr line_items \<Rightarrow>
          Inr ([markdown_row run_id invoice_uuid document_name agentic_doc_version markdown],
               map (chunk_row run_id invoice_uuid document_name) chunks,
               [main_data run_id invoice_uuid document_name agentic_doc_version
                  (doc_extraction extract_result)],
               map (\<lambda>(idx, item).
                      line_item_row run_id invoice_uuid document_name agentic_doc_version
                        idx item)
                   (enumerate 0 line_items))))))"

subsection \<open>The loop and the entry point, lines 254 to 411\<close>

text \<open>
  \<open>uuid.uuid4()\<close> is the one effect of the function. The generator is modelled as the
  sequence \<open>gen\<close> of the identifiers that successive calls of \<open>str(uuid.uuid4())\<close>
  return, and its state as the number \<open>n\<close> of identifiers drawn so far; the functions
  return the state they leave behind.
\<close>

fun append_tables :: "tables \<Rightarrow> tables \<Rightarrow> tables" where
  "append_tables (md, ch, mn, li) (md', ch', mn', li') = (md @ md', ch @ ch', mn @ mn', li @ li')"

fun process_docs ::
  "(nat \<Rightarrow> string) \<Rightarrow> nat \<Rightarrow> pyval \<Rightarrow> pyval list \<Rightarrow> tables \<Rightarrow> error + (tables \<times> nat)" where
  "process_docs gen n run_id [] acc = Inr (acc, n)"
| "process_docs gen n run_id (x # xs) acc =
     (case unpack2 x of
        Inl e \<Rightarrow> Inl e
      | Inr (parse_result, extract_result) \<Rightarrow>
          (case doc_tables run_id (PStr (gen n)) parse_result extract_result of
             Inl e \<Rightarrow> Inl e
           | Inr t \<Rightarrow> process_docs gen (Suc n) run_id xs (append_tables acc t)))"

text \<open>Lines 254 to 262: batch mode for a list, single document mode otherwise.\<close>

definition results_list :: "pyval \<Rightarrow> pyval \<Rightarrow> error + pyval list" where
  "results_list results extract_result =
     (case results of
        PList xs \<Rightarrow> Inr xs
      | _ \<Rightarrow>
          if extract_result = PNone
          then Inl (ValueError ''In single document mode, extract_result parameter is required'')
          else Inr [PTuple [results, extract_result]])"

text \<open>
  Lines 254 to 401: the four lists of row dicts that the loop has accumulated when it
  ends, \<open>markdown_rows\<close>, \<open>chunks_rows\<close>, \<open>main_rows\<close> and \<open>line_items_rows\<close>.
\<close>

definition invoice_summary_rows ::
  "(nat \<Rightarrow> string) \<Rightarrow> nat \<Rightarrow> pyval \<Rightarrow> pyval \<Rightarrow> pyval \<Rightarrow> error + (tables \<times> nat)" where
  "invoice_summary_rows gen n results extract_result run_id =
     (case results_list results extract_result of
        Inl e \<Rightarrow> Inl e
      | Inr rl \<Rightarrow>
          if run_id = PNone
          then process_docs gen (Suc n) (PStr (gen n)) rl ([], [], [], [])
          else process_docs gen n run_id rl ([], [], [], []))"

text \<open>
  Lines 403 to 411: each list of rows becomes a \<open>pandas.DataFrame\<close>, and the four frames
  are returned.
\<close>

definition create_invoice_summary_tables ::
  "(nat \<Rightarrow> string) \<Rightarrow> nat \<Rightarrow> pyval \<Rightarrow> pyval \<Rightarrow> pyval \<Rightarrow> error + (tables \<times> nat)" where
  "create_invoice_summary_tables gen n results extract_result run_id =
     (case invoice_summary_rows gen n results extract_result run_id of
        Inl e \<Rightarrow> Inl e
      | Inr ((markdown_rows, chunks_rows, main_rows, line_items_rows), n') \<Rightarrow>
          Inr ((DataFrame markdown_rows, DataFrame chunks_rows, DataFrame main_rows,
                DataFrame line_items_rows), n'))"

section \<open>Notions of the specification\<close>

text \<open>
  What the claims speak of is defined here on the data, by the attributes and items of
  the values, and not through the functions of the code above.

  The document pairs that a call passes: the elements of a batch of tuples, or the one
  pair of single document mode.
\<close>

definition mk_pair :: "pyval \<times> pyval \<Rightarrow> pyval" where
  "mk_pair pe = PTuple [fst pe, snd pe]"

definition passes :: "(pyval \<times> pyval) list \<Rightarrow> pyval \<Rightarrow> pyval \<Rightarrow> bool" where
  "passes ps results extract_result =
     (results = PList (map mk_pair ps) \<or>
      (\<not> isinstance_list results \<and> extract_result \<noteq> PNone \<and> ps = [(results, extract_result)]))"

text \<open>
  An attribute of a value, null when the value has none of that name; the items of a
  list or tuple.
\<close>

definition attribute :: "pyval \<Rightarrow> string \<Rightarrow> pyval option" where
  "attribute x name = map_of (attrs_of x) name"

definition attr_or_null :: "pyval \<Rightarrow> string \<Rightarrow> pyval" where
  "attr_or_null x name = (case attribute x name of Some v \<Rightarrow> v | None \<Rightarrow> PNone)"

fun seq_items :: "pyval \<Rightarrow> pyval list option" where
  "seq_items (PList xs) = Some xs"
| "seq_items (PTuple xs) = Some xs"
| "seq_items _ = None"

text \<open>
  The chunks of a parse result, the extraction of an extract result (an empty mapping
  when it has no such attribute) and its line items (none when \<open>line_items\<close> is absent
  or null).
\<close>

definition chunks_of :: "pyval \<Rightarrow> pyval list" where
  "chunks_of p =
     (case attribute p ''chunks'' of
        Some c \<Rightarrow> (case seq_items c of Some cs \<Rightarrow> cs | None \<Rightarrow> [])
      | None \<Rightarrow> [])"

definition extraction_of :: "pyval \<Rightarrow> pyval" where
  "extraction_of e = (case attribute e ''extraction'' of Some x \<Rightarrow> x | None \<Rightarrow> PDict [] [])"

definition line_items_value :: "pyval \<Rightarrow> pyval option" where
  "line_items_value e =
     (case extraction_of e of PDict items a \<Rightarrow> map_of items ''line_items'' | _ \<Rightarrow> None)"

definition line_items_of :: "pyval \<Rightarrow> pyval list" where
  "line_items_of e =
     (case line_items_value e of
        Some v \<Rightarrow> (case seq_items v of Some xs \<Rightarrow> xs | None \<Rightarrow> [])
      | None \<Rightarrow> [])"

text \<open>
  A pair conforms to the data model when its parse result has \<open>metadata\<close>,
  \<open>markdown\<close> and a sequence of \<open>chunks\<close>, and the line items of its extract result,
  if any, are a sequence. Nothing is asked of the extract result itself.
\<close>

definition conforms :: "pyval \<times> pyval \<Rightarrow> bool" where
  "conforms pe =
     (attribute (fst pe) ''metadata'' \<noteq> None \<and>
      attribute (fst pe) ''markdown'' \<noteq> None \<and>
      (case attribute (fst pe) ''chunks'' of Some c \<Rightarrow> seq_items c \<noteq> None | None \<Rightarrow> False) \<and>
      (case line_items_value (snd pe) of
         Some v \<Rightarrow> v = PNone \<or> seq_items v \<noteq> None
       | None \<Rightarrow> True))"

text \<open>
  The document name and the version, and the rows that one document and a batch of
  documents contribute: one markdown row and one header row per document, one chunk row
  per chunk and one line-item row per line item, the documents in input order, each with
  its own draw of the generator.
\<close>

definition document_name_of :: "pyval \<Rightarrow> pyval" where
  "document_name_of p =
     (case attribute (attr_or_null p ''metadata'') ''filename'' of
        Some f \<Rightarrow> f
      | None \<Rightarrow> PStr ''unknown'')"

definition version_of :: "pyval \<Rightarrow> pyval" where
  "version_of p =
     (case attribute (attr_or_null p ''metadata'') ''version'' of
        Some v \<Rightarrow> v
      | None \<Rightarrow> PStr ''unknown'')"

definition doc_rows :: "pyval \<Rightarrow> pyval \<Rightarrow> pyval \<times> pyval \<Rightarrow> tables" where
  "doc_rows r u pe =
     ([markdown_row r u (document_name_of (fst pe)) (version_of (fst pe))
         (attr_or_null (fst pe) ''markdown'')],
      map (chunk_row r u (document_name_of (fst pe))) (chunks_of (fst pe)),
      [main_data r u (document_name_of (fst pe)) (version_of (fst pe)) (extraction_of (snd pe))],
      map (\<lambda>(idx, item).
             line_item_row r u (document_name_of (fst pe)) (version_of (fst pe)) idx item)
        (enumerate 0 (line_items_of (snd pe))))"

fun batch_rows :: "(nat \<Rightarrow> string) \<Rightarrow> nat \<Rightarrow> pyval \<Rightarrow> (pyval \<times> pyval) list \<Rightarrow> tables" where
  "batch_rows gen k r [] = ([], [], [], [])"
| "batch_rows gen k r (pe # ps) =
     append_tables (doc_rows r (PStr (gen k)) pe) (batch_rows gen (Suc k) r ps)"

text \<open>
  The null-safe lookup of a two-level path in the words of the specification: an absent
  group, an absent field and an intermediate value that is not a mapping give null, a
  value that is there is returned as it is.
\<close>

fun null_safe_lookup :: "pyval \<Rightarrow> string \<Rightarrow> string \<Rightarrow> pyval" where
  "null_safe_lookup (PDict groups a) grp fld =
     (case map_of groups grp of
        None \<Rightarrow> PNone
      | Some (PDict flds b) \<Rightarrow> (case map_of flds fld of None \<Rightarrow> PNone | Some v \<Rightarrow> v)
      | Some _ \<Rightarrow> PNone)"
| "null_safe_lookup _ grp fld = PNone"

text \<open>
  The field table of the specification (group name, fields) and the eight line-item
  fields; a column carries the upper-cased name of its field. \<open>header_cells\<close> are the
  enumerated columns of a header row, in the order of the table.
\<close>

definition header_fields :: "(string \<times> string list) list" where
  "header_fields =
     [(''invoice_info'',
         [''invoice_date_raw'', ''invoice_date'', ''invoice_number'', ''order_date'',
          ''po_number'', ''status'']),
      (''customer_info'', [''sold_to_name'', ''sold_to_address'', ''customer_email'']),
      (''company_info'',
         [''supplier_name'', ''supplier_address'', ''representative'', ''email'', ''phone'',
          ''gstin'', ''pan'']),
      (''order_details'', [''payment_terms'', ''ship_via'', ''ship_date'', ''tracking_number'']),
      (''totals_summary'',
         [''currency'', ''total_due_raw'', ''total_due'', ''subtotal'', ''tax'', ''shipping'',
          ''handling_fee''])]"

definition line_item_fields :: "string list" where
  "line_item_fields =
     [''line_number'', ''sku'', ''description'', ''quantity'', ''unit_price'', ''price'',
      ''amount'', ''total'']"

definition upper :: "string \<Rightarrow> string" where
  "upper s =
     map (\<lambda>c. case map_of (zip ''abcdefghijklmnopqrstuvwxyz'' ''ABCDEFGHIJKLMNOPQRSTUVWXYZ'') c of
                 Some C \<Rightarrow> C
               | None \<Rightarrow> c) s"

definition header_cells :: "pyval \<Rightarrow> row" where
  "header_cells x =
     concat (map (\<lambda>(g, fs). map (\<lambda>f. (upper f, null_safe_lookup x g f)) fs) header_fields)"

text \<open>
  Page and box coordinates of a chunk: null when grounding is missing or falsy; else the
  page of the grounding (null when it has none) and, when the box is there and truthy,
  each coordinate from its own attribute of the box.
\<close>

definition grounding_columns :: "string list" where
  "grounding_columns = [''page'', ''box_l'', ''box_t'', ''box_r'', ''box_b'']"

definition grounding_cells :: "pyval \<Rightarrow> pyval list" where
  "grounding_cells chunk =
     (case attribute chunk ''grounding'' of
        None \<Rightarrow> [PNone, PNone, PNone, PNone, PNone]
      | Some g \<Rightarrow>
          if \<not> truthy g then [PNone, PNone, PNone, PNone, PNone]
          else attr_or_null g ''page'' #
            (case attribute g ''box'' of
               None \<Rightarrow> [PNone, PNone, PNone, PNone]
             | Some b \<Rightarrow>
                 if \<not> truthy b then [PNone, PNone, PNone, PNone]
                 else map (attr_or_null b) [''left'', ''top'', ''right'', ''bottom'']))"

text \<open>
  What is wrong with a malformed element of the batch and the exception it leads to: a
  number or \<open>None\<close> is not iterable, a list or tuple of another length than two does
  not unpack, a parse result lacks one of the three attributes the loop reads without a
  guard, or its chunks are a number or \<open>None\<close>. A missing extract result is no defect.
\<close>

fun is_scalar :: "pyval \<Rightarrow> bool" where
  "is_scalar PNone = True"
| "is_scalar (PBool b) = True"
| "is_scalar (PInt i) = True"
| "is_scalar (PFloat r) = True"
| "is_scalar PNaN = True"
| "is_scalar _ = False"

definition parse_defect :: "pyval \<Rightarrow> error option" where
  "parse_defect p =
     (if attribute p ''metadata'' = None then Some (AttributeError ''metadata'')
      else if attribute p ''markdown'' = None then Some (AttributeError ''markdown'')
      else case attribute p ''chunks'' of
             None \<Rightarrow> Some (AttributeError ''chunks'')
           | Some c \<Rightarrow> if is_scalar c then Some (TypeError ''object is not iterable'') else None)"

definition defect :: "pyval \<Rightarrow> error option" where
  "defect x =
     (if is_scalar x then Some (TypeError ''object is not iterable'')
      else case seq_items x of
             None \<Rightarrow> None
           | Some [p, e] \<Rightarrow> parse_defect p
           | Some vs \<Rightarrow>
               Some (ValueError (if length vs < 2 then ''not enough values to unpack''
                                 else ''too many values to unpack'')))"

text \<open>
  For the statements about any call that returns: the pairs as the loop unpacks them, the
  lengths of what the two inner loops run over, and the invoice identifiers a call draws
  for \<open>k\<close> documents when it starts in generator state \<open>n\<close> (the draws that follow
  the one for the run id, if that was drawn).
\<close>

fun unpack_all :: "pyval list \<Rightarrow> error + (pyval \<times> pyval) list" where
  "unpack_all [] = Inr []"
| "unpack_all (x # xs) =
     (case unpack2 x of
        Inl e \<Rightarrow> Inl e
      | Inr pe \<Rightarrow> (case unpack_all xs of Inl e \<Rightarrow> Inl e | Inr pes \<Rightarrow> Inr (pe # pes)))"

definition input_pairs :: "pyval \<Rightarrow> pyval \<Rightarrow> error + (pyval \<times> pyval) list" where
  "input_pairs results extract_result =
     (case results_list results extract_result of
        Inl e \<Rightarrow> Inl e
      | Inr rl \<Rightarrow> unpack_all rl)"

definition num_chunks :: "pyval \<Rightarrow> nat" where
  "num_chunks parse_result = (case doc_chunks parse_result of Inl e \<Rightarrow> 0 | Inr cs \<Rightarrow> length cs)"

definition num_line_items :: "pyval \<Rightarrow> nat" where
  "num_line_items extract_result =
     (case doc_line_items extract_result of Inl e \<Rightarrow> 0 | Inr items \<Rightarrow> length items)"

definition invoice_ids :: "(nat \<Rightarrow> string) \<Rightarrow> nat \<Rightarrow> pyval \<Rightarrow> nat \<Rightarrow> pyval list" where
  "invoice_ids gen n run_id k =
     map (\<lambda>i. PStr (gen ((if run_id = PNone then Suc n else n) + i))) [0..<k]"

section \<open>Example documents\<close>

text \<open>
  A generator whose draws are pairwise distinct; a parse result with two chunks (one with
  a box that has only \<open>left\<close> and \<open>top\<close>, one whose grounding is \<open>None\<close>); an
  extraction with one header field and two line items (a dict and an object); a second
  document without file name and without extraction; an extraction with an integer tax;
  a chunk whose grounding is an empty dict subclass instance that carries \<open>page\<close> as an
  attribute; and a dict subclass instance that carries \<open>sku\<close> as an attribute and not as
  a key.
\<close>

definition ex_gen :: "nat \<Rightarrow> string" where
  "ex_gen k = replicate (Suc k) (CHR ''u'')"

definition ex_box :: pyval where
  "ex_box = pydantic [(''left'', PFloat 0.5), (''top'', PFloat 2)]"

definition ex_chunk_boxed :: pyval where
  "ex_chunk_boxed =
     pydantic [(''id'', PStr ''c0''), (''type'', PStr ''text''), (''markdown'', PStr ''Invoice''),
           (''grounding'', pydantic [(''page'', PInt 0), (''box'', ex_box)])]"

definition ex_chunk_no_grounding :: pyval where
  "ex_chunk_no_grounding = pydantic [(''id'', PStr ''c1''), (''grounding'', PNone)]"

definition ex_chunk_no_box :: pyval where
  "ex_chunk_no_box = pydantic [(''grounding'', pydantic [(''page'', PInt 3)])]"

definition ex_falsy_grounding :: pyval where
  "ex_falsy_grounding = PDict [] [(''page'', PInt 3)]"

definition ex_chunk_falsy :: pyval where
  "ex_chunk_falsy = PObj [(''grounding'', ex_falsy_grounding)] None"

definition ex_item_dict :: pyval where
  "ex_item_dict = PDict [(''sku'', PStr ''A1''), (''quantity'', PInt 3)] []"

definition ex_item_obj :: pyval where
  "ex_item_obj = PObj [(''sku'', PStr ''A2''), (''quantity'', PInt 5)] None"

definition ex_item_attr_dict :: pyval where
  "ex_item_attr_dict = PDict [(''quantity'', PInt 5)] [(''sku'', PStr ''A2'')]"

definition ex_parse :: pyval where
  "ex_parse =
     pydantic [(''markdown'', PStr ''Invoice''),
           (''chunks'', PList [ex_chunk_boxed, ex_chunk_no_grounding]),
           (''metadata'',
            pydantic [(''filename'', PStr ''invoice.pdf''), (''version'', PStr ''v1'')])]"

definition ex_extraction :: pyval where
  "ex_extraction =
     PDict [(''invoice_info'', PDict [(''invoice_number'', PStr ''INV-001'')] []),
            (''line_items'', PList [ex_item_dict, ex_item_obj])] []"

definition ex_extract :: pyval where
  "ex_extract = pydantic [(''extraction'', ex_extraction)]"

definition ex_parse2 :: pyval where
  "ex_parse2 =
     pydantic [(''markdown'', PStr ''Receipt''), (''chunks'', PList [ex_chunk_no_box]),
           (''metadata'', pydantic [])]"

definition ex_parse_falsy :: pyval where
  "ex_parse_falsy =
     pydantic [(''markdown'', PStr ''Receipt''), (''chunks'', PList [ex_chunk_falsy]),
           (''metadata'', pydantic [])]"

definition ex_tax_extract :: pyval where
  "ex_tax_extract =
     PObj [(''extraction'', PDict [(''totals_summary'', PDict [(''tax'', PInt 7)] [])] [])] None"

definition ex_pairs :: "(pyval \<times> pyval) list" where
  "ex_pairs = [(ex_parse, ex_extract), (ex_parse2, PObj [] None)]"

definition ex_batch :: pyval where
  "ex_batch = PList [PTuple [ex_parse, ex_extract], PTuple [ex_parse2, PObj [] None]]"

definition ex_tax_pairs :: "(pyval \<times> pyval) list" where
  "ex_tax_pairs = [(ex_parse, ex_tax_extract), (ex_parse2, PObj [] None)]"

definition ex_tax_batch :: pyval where
  "ex_tax_batch = PList [PTuple [ex_parse, ex_tax_extract], PTuple [ex_parse2, PObj [] None]]"

definition ex_tables :: tables where
  "ex_tables = fst (projr (create_invoice_summary_tables ex_gen 0 ex_batch PNone PNone))"

section \<open>The frame model\<close>

declare bit_length.simps [simp del]

lemma bit_length_le: "n < 2 ^ k \<Longrightarrow> bit_length n \<le> k"
proof (induction k arbitrary: n)
  case 0
  then show ?case by (simp add: bit_length.simps)
next
  case (Suc k)
  show ?case
  proof (cases "n = 0")
    case True
    then show ?thesis by (simp add: bit_length.simps)
  next
    case False
    have "n div 2 < 2 ^ k" using Suc.prems by auto
    from Suc.IH [OF this] False show ?thesis by (subst bit_length.simps) simp
  qed
qed

lemma float64_of_int_exact: "\<bar>i\<bar> < 2 ^ 53 \<Longrightarrow> float64_of_int i = real_of_int i"
proof -
  assume "\<bar>i\<bar> < 2 ^ 53"
  then have "nat \<bar>i\<bar> < 2 ^ 53" by (simp add: nat_less_iff)
  from bit_length_le [OF this] have e: "bit_length (nat \<bar>i\<bar>) - 53 = 0" by simp
  have "float64_of_int i = (if i < 0 then - real (nat \<bar>i\<bar>) else real (nat \<bar>i\<bar>))"
    unfolding float64_of_int_def Let_def e by simp
  then show ?thesis by simp
qed


lemma scan_seen:
  "(seen_null (scan s vs) \<longrightarrow> seen_null s \<or> PNone \<in> set vs) \<and>
   (seen_nan (scan s vs) \<longrightarrow> seen_nan s \<or> PNaN \<in> set vs) \<and>
   (seen_float (scan s vs) \<longrightarrow> seen_float s \<or> (\<exists>r. PFloat r \<in> set vs)) \<and>
   (seen_int (scan s vs) \<longrightarrow> seen_int s \<or> (\<exists>i. PInt i \<in> set vs))"
  by (induction s vs rule: scan.induct) (auto simp: saw_int_def)

lemma convert_column_cases: "convert_column vs = vs \<or> convert_column vs = map to_float vs"
  by (simp add: convert_column_def Let_def)

lemma convert_column_length: "length (convert_column vs) = length vs"
  using convert_column_cases [of vs] by auto

lemma convert_column_fixed:
  assumes "\<forall>v\<in>set vs. to_float v = v"
  shows "convert_column vs = vs"
proof -
  from assms have "map to_float vs = vs" by (induction vs) auto
  with convert_column_cases [of vs] show ?thesis by auto
qed

lemma convert_column_ints:
  assumes "\<forall>v\<in>set vs. \<exists>i. v = PInt i"
  shows "convert_column vs = vs"
proof -
  let ?s = "scan seen_nothing vs"
  from assms have "PNone \<notin> set vs" "PNaN \<notin> set vs" "\<forall>r. PFloat r \<notin> set vs" by auto
  with scan_seen [of seen_nothing vs]
  have "\<not> seen_null ?s" "\<not> seen_nan ?s" "\<not> seen_float ?s"
    by (auto simp: seen_nothing_def)
  then show ?thesis by (simp add: convert_column_def Let_def)
qed

lemma convert_column_nones:
  assumes "\<forall>v\<in>set vs. v = PNone"
  shows "convert_column vs = vs"
proof -
  let ?s = "scan seen_nothing vs"
  from assms have "PNaN \<notin> set vs" "\<forall>r. PFloat r \<notin> set vs" "\<forall>i. PInt i \<notin> set vs" by auto
  with scan_seen [of seen_nothing vs]
  have "\<not> seen_nan ?s" "\<not> seen_float ?s" "\<not> seen_int ?s"
    by (auto simp: seen_nothing_def)
  then show ?thesis by (simp add: convert_column_def Let_def)
qed

lemma convert_column_const:
  assumes "\<forall>v\<in>set vs. v = r"
  shows "convert_column vs = vs"
proof (cases r)
  case PNone
  with assms show ?thesis by (intro convert_column_nones) simp
next
  case (PInt i)
  with assms show ?thesis by (intro convert_column_ints) blast
qed (use assms in \<open>auto intro!: convert_column_fixed\<close>)

lemma DataFrame_length: "length (DataFrame rows) = length rows"
  by (simp add: DataFrame_def Let_def)

lemma DataFrame_cell:
  assumes "j < length rows" and "map_of (rows ! j) c = Some v"
  shows "map_of (DataFrame rows ! j) c = Some (convert_column (map (cell c) rows) ! j)"
proof -
  from assms(2) have "c \<in> fst ` set (rows ! j)" by (metis map_of_eq_None_iff option.distinct(1))
  moreover have "rows ! j \<in> set rows" using assms(1) by simp
  ultimately have "c \<in> set (rev (remdups (rev (concat (map (map fst) rows)))))"
    by auto
  then show ?thesis
    using assms(1) by (simp add: DataFrame_def Let_def map_of_map_restrict)
qed

lemma DataFrame_kept_column:
  assumes "\<forall>r\<in>set rows. \<exists>v. map_of r c = Some v \<and> to_float v = v"
  shows "map (\<lambda>r. map_of r c) (DataFrame rows) = map (\<lambda>r. map_of r c) rows"
proof (rule nth_equalityI)
  show "length (map (\<lambda>r. map_of r c) (DataFrame rows)) = length (map (\<lambda>r. map_of r c) rows)"
    by (simp add: DataFrame_length)
next
  fix j assume "j < length (map (\<lambda>r. map_of r c) (DataFrame rows))"
  then have j: "j < length rows" by (simp add: DataFrame_length)
  then obtain v where v: "map_of (rows ! j) c = Some v" using assms by force
  have "\<forall>x\<in>set (map (cell c) rows). to_float x = x"
    using assms by (auto simp: cell_def)
  then have "convert_column (map (cell c) rows) = map (cell c) rows"
    by (rule convert_column_fixed)
  with DataFrame_cell [OF j v] j v
  show "map (\<lambda>r. map_of r c) (DataFrame rows) ! j = map (\<lambda>r. map_of r c) rows ! j"
    by (simp add: DataFrame_length cell_def)
qed

lemma DataFrame_const_column:
  assumes "\<forall>r\<in>set rows. map_of r c = Some v"
  shows "\<forall>r\<in>set (DataFrame rows). map_of r c = Some v"
proof
  fix r assume "r \<in> set (DataFrame rows)"
  then obtain j where j: "j < length rows" and r: "r = DataFrame rows ! j"
    by (auto simp: in_set_conv_nth DataFrame_length)
  from j assms have v: "map_of (rows ! j) c = Some v" by simp
  have "\<forall>x\<in>set (map (cell c) rows). x = v"
    using assms by (auto simp: cell_def)
  then have "convert_column (map (cell c) rows) = map (cell c) rows"
    by (rule convert_column_const)
  with DataFrame_cell [OF j v] j v r show "map_of r c = Some v"
    by (simp add: cell_def)
qed

section \<open>The shape of the result\<close>

lemma foldl_append_tables:
  "foldl append_tables (a, b, c, d) ts =
     (a @ concat (map fst ts),
      b @ concat (map (\<lambda>t. fst (snd t)) ts),
      c @ concat (map (\<lambda>t. fst (snd (snd t))) ts),
      d @ concat (map (\<lambda>t. snd (snd (snd t))) ts))"
  by (induction ts arbitrary: a b c d) auto

lemma process_docs_Inr:
  "process_docs gen n run_id xs acc = Inr (T, n') \<Longrightarrow>
     n' = n + length xs \<and>
     (\<exists>ps ts. unpack_all xs = Inr ps \<and> length ps = length xs \<and> length ts = length xs \<and>
        (\<forall>i<length xs.
           doc_tables run_id (PStr (gen (n + i))) (fst (ps ! i)) (snd (ps ! i)) = Inr (ts ! i)) \<and>
        T = foldl append_tables acc ts)"
proof (induction xs arbitrary: n acc)
  case Nil
  then show ?case by simp
next
  case (Cons x xs)
  from Cons.prems obtain p e t where
    u: "unpack2 x = Inr (p, e)" and
    d: "doc_tables run_id (PStr (gen n)) p e = Inr t" and
    r: "process_docs gen (Suc n) run_id xs (append_tables acc t) = Inr (T, n')"
    by (auto split: sum.splits)
  from Cons.IH [OF r] obtain ps ts where
    n': "n' = Suc n + length xs" and
    ps: "unpack_all xs = Inr ps" "length ps = length xs" "length ts = length xs" and
    ts: "\<forall>i<length xs.
           doc_tables run_id (PStr (gen (Suc n + i))) (fst (ps ! i)) (snd (ps ! i)) = Inr (ts ! i)" and
    T: "T = foldl append_tables (append_tables acc t) ts"
    by blast
  have "\<forall>i<length (x # xs).
          doc_tables run_id (PStr (gen (n + i))) (fst (((p, e) # ps) ! i)) (snd (((p, e) # ps) ! i))
            = Inr ((t # ts) ! i)"
  proof (intro allI impI)
    fix i assume "i < length (x # xs)"
    then show "doc_tables run_id (PStr (gen (n + i))) (fst (((p, e) # ps) ! i))
                 (snd (((p, e) # ps) ! i)) = Inr ((t # ts) ! i)"
      using d ts by (cases i) auto
  qed
  moreover have "unpack_all (x # xs) = Inr ((p, e) # ps)"
    using u ps by simp
  moreover have "T = foldl append_tables acc (t # ts)"
    using T by simp
  ultimately show ?case
    using n' ps by (intro conjI exI [of _ "(p, e) # ps"] exI [of _ "t # ts"]) auto
qed

lemma doc_tables_Inr:
  "doc_tables run_id invoice_uuid p e = Inr t \<Longrightarrow>
     \<exists>metadata markdown chunks line_items.
       getattr p ''metadata'' = Inr metadata \<and>
       getattr p ''markdown'' = Inr markdown \<and>
       doc_chunks p = Inr chunks \<and>
       doc_line_items e = Inr line_items \<and>
       t = ([markdown_row run_id invoice_uuid
               (getattr_default metadata ''filename'' (PStr ''unknown''))
               (getattr_default metadata ''version'' (PStr ''unknown'')) markdown],
            map (chunk_row run_id invoice_uuid
                   (getattr_default metadata ''filename'' (PStr ''unknown''))) chunks,
            [main_data run_id invoice_uuid
               (getattr_default metadata ''filename'' (PStr ''unknown''))
               (getattr_default metadata ''version'' (PStr ''unknown''))
               (doc_extraction e)],
            map (\<lambda>(idx, item).
                   line_item_row run_id invoice_uuid
                     (getattr_default metadata ''filename'' (PStr ''unknown''))
                     (getattr_default metadata ''version'' (PStr ''unknown'')) idx item)
                (enumerate 0 line_items))"
  by (auto simp: doc_tables_def Let_def split: sum.splits)

lemma rows_Inr:
  assumes "invoice_summary_rows gen n results extract_result run_id =
             Inr ((md, ch, mn, li), n')"
  shows "\<exists>ps ts. input_pairs results extract_result = Inr ps \<and> length ts = length ps \<and>
           n' = (if run_id = PNone then Suc n else n) + length ps \<and>
           (\<forall>i<length ps.
              doc_tables (if run_id = PNone then PStr (gen n) else run_id)
                (PStr (gen ((if run_id = PNone then Suc n else n) + i)))
                (fst (ps ! i)) (snd (ps ! i)) = Inr (ts ! i)) \<and>
           md = concat (map fst ts) \<and>
           ch = concat (map (\<lambda>t. fst (snd t)) ts) \<and>
           mn = concat (map (\<lambda>t. fst (snd (snd t))) ts) \<and>
           li = concat (map (\<lambda>t. snd (snd (snd t))) ts)"
proof -
  from assms obtain rl where
    rl: "results_list results extract_result = Inr rl" and
    p: "process_docs gen (if run_id = PNone then Suc n else n)
          (if run_id = PNone then PStr (gen n) else run_id) rl ([], [], [], [])
          = Inr ((md, ch, mn, li), n')"
    by (auto simp: invoice_summary_rows_def split: sum.splits if_splits)
  from process_docs_Inr [OF p] obtain ps ts where
    "n' = (if run_id = PNone then Suc n else n) + length rl"
    "unpack_all rl = Inr ps" "length ps = length rl" "length ts = length rl"
    "\<forall>i<length rl.
       doc_tables (if run_id = PNone then PStr (gen n) else run_id)
         (PStr (gen ((if run_id = PNone then Suc n else n) + i)))
         (fst (ps ! i)) (snd (ps ! i)) = Inr (ts ! i)"
    "(md, ch, mn, li) = foldl append_tables ([], [], [], []) ts"
    by blast
  then show ?thesis
    using rl by (intro exI [of _ ps] exI [of _ ts]) (simp add: input_pairs_def foldl_append_tables)
qed

lemma concat_singletons:
  "\<forall>i<length ts. f (ts ! i) = [g i] \<Longrightarrow> concat (map f ts) = map g [0..<length ts]"
proof (induction ts rule: rev_induct)
  case Nil
  then show ?case by simp
next
  case (snoc t ts)
  have "\<forall>i<length ts. f (ts ! i) = [g i]"
  proof (intro allI impI)
    fix i assume i: "i < length ts"
    then have "f ((ts @ [t]) ! i) = [g i]" using snoc.prems by simp
    then show "f (ts ! i) = [g i]" using i by (simp add: nth_append)
  qed
  moreover have "f t = [g (length ts)]"
    using snoc.prems [rule_format, of "length ts"] by simp
  ultimately show ?case using snoc.IH by simp
qed

lemma length_concat_nth:
  "\<forall>i<length ts. length (f (ts ! i)) = g i \<Longrightarrow>
     length (concat (map f ts)) = sum_list (map g [0..<length ts])"
proof (induction ts rule: rev_induct)
  case Nil
  then show ?case by simp
next
  case (snoc t ts)
  have "\<forall>i<length ts. length (f (ts ! i)) = g i"
  proof (intro allI impI)
    fix i assume i: "i < length ts"
    then have "length (f ((ts @ [t]) ! i)) = g i" using snoc.prems by simp
    then show "length (f (ts ! i)) = g i" using i by (simp add: nth_append)
  qed
  moreover have "length (f t) = g (length ts)"
    using snoc.prems [rule_format, of "length ts"] by simp
  ultimately show ?case using snoc.IH by simp
qed

lemma sum_list_nth_upt: "sum_list (map (\<lambda>i. h (ps ! i)) [0..<length ps]) = sum_list (map h ps)"
proof -
  have "map (\<lambda>i. h (ps ! i)) [0..<length ps] = map h (map (\<lambda>i. ps ! i) [0..<length ps])"
    by (simp only: map_map comp_def)
  then show ?thesis by (simp only: map_nth)
qed

lemma concat_rows_all:
  assumes "\<forall>i<length ts. \<forall>row\<in>set (f (ts ! i)). P row"
  shows "\<forall>row\<in>set (concat (map f ts)). P row"
proof
  fix row assume "row \<in> set (concat (map f ts))"
  then obtain t where "t \<in> set ts" "row \<in> set (f t)" by auto
  then obtain i where "i < length ts" "t = ts ! i" by (auto simp: in_set_conv_nth)
  with assms \<open>row \<in> set (f t)\<close> show "P row" by blast
qed

lemma doc_tables_lengths:
  assumes "doc_tables r u p e = Inr t"
  shows "length (fst t) = 1" "length (fst (snd t)) = num_chunks p"
    "length (fst (snd (snd t))) = 1" "length (snd (snd (snd t))) = num_line_items e"
  using doc_tables_Inr [OF assms] by (auto simp: num_chunks_def num_line_items_def)

lemma doc_tables_run_id:
  assumes "doc_tables r u p e = Inr t"
  shows "\<forall>row\<in>set (fst t) \<union> set (fst (snd t)) \<union> set (fst (snd (snd t))) \<union> set (snd (snd (snd t))).
           map_of row ''RUN_ID'' = Some r"
  using doc_tables_Inr [OF assms]
  by (auto simp: markdown_row_def chunk_row_def main_data_def line_item_row_def Let_def)

lemma doc_tables_invoice_uuid:
  assumes "doc_tables r u p e = Inr t"
  shows "\<forall>row\<in>set (fst t) \<union> set (fst (snd t)) \<union> set (fst (snd (snd t))) \<union> set (snd (snd (snd t))).
           map_of row ''INVOICE_UUID'' = Some u"
  using doc_tables_Inr [OF assms]
  by (auto simp: markdown_row_def chunk_row_def main_data_def line_item_row_def Let_def)

lemma safe_get_null_safe_lookup: "safe_get x [g, f] = null_safe_lookup x g f"
  by (cases x) (auto split: option.splits pyval.splits)

lemma main_data_fields:
  "drop 4 (main_data r u d v x) =
     concat (map (\<lambda>(g, fs). map (\<lambda>f. (upper f, null_safe_lookup x g f)) fs) header_fields)"
  by (simp add: main_data_def header_fields_def safe_get_null_safe_lookup upper_def 
           del: safe_get.simps null_safe_lookup.simps)

lemma guarded_attr:
  "(if truthy x \<and> hasattr x name then getattr_default x name PNone else PNone) =
   (if truthy x then getattr_default x name PNone else PNone)"
  by (simp add: hasattr_def getattr_default_def split: option.splits)

lemma chunk_row_cells:
  "map (map_of (chunk_row r u d chunk)) [''page'', ''box_l'', ''box_t'', ''box_r'', ''box_b''] =
     (let grounding = getattr_default chunk ''grounding'' PNone;
          box = (if truthy grounding then getattr_default grounding ''box'' PNone else PNone)
      in [Some (if truthy grounding then getattr_default grounding ''page'' PNone else PNone),
          Some (if truthy box then getattr_default box ''left'' PNone else PNone),
          Some (if truthy box then getattr_default box ''top'' PNone else PNone),
          Some (if truthy box then getattr_default box ''right'' PNone else PNone),
          Some (if truthy box then getattr_default box ''bottom'' PNone else PNone)])"
  unfolding chunk_row_def Let_def guarded_attr by simp

lemma singleton_column:
  assumes "\<forall>i<length ts. \<exists>x. f (ts ! i) = [x] \<and> c x = v i"
  shows "map c (concat (map f ts)) = map v [0..<length ts]"
proof -
  have "\<forall>i<length ts. f (ts ! i) = [hd (f (ts ! i))]"
    using assms by fastforce
  then have "concat (map f ts) = map (\<lambda>i. hd (f (ts ! i))) [0..<length ts]"
    by (rule concat_singletons)
  moreover have "map (\<lambda>i. c (hd (f (ts ! i)))) [0..<length ts] = map v [0..<length ts]"
    using assms by (intro map_cong refl) fastforce
  ultimately show ?thesis by (simp add: comp_def)
qed

lemma rows_drawn:
  assumes "invoice_summary_rows gen n results extract_result run_id =
             Inr ((md, ch, mn, li), n')"
  shows "\<forall>row\<in>set md \<union> set ch \<union> set mn \<union> set li.
           \<exists>k. n \<le> k \<and> k < n' \<and> map_of row ''INVOICE_UUID'' = Some (PStr (gen k))"
proof -
  define n0 where "n0 = (if run_id = PNone then Suc n else n)"
  from rows_Inr [OF assms] obtain ps ts where
    len: "length ts = length ps" and
    n': "n' = n0 + length ps" and
    ts: "\<forall>i<length ps. \<exists>r. doc_tables r (PStr (gen (n0 + i)))
            (fst (ps ! i)) (snd (ps ! i)) = Inr (ts ! i)" and
    md: "md = concat (map fst ts)" and
    ch: "ch = concat (map (\<lambda>t. fst (snd t)) ts)" and
    mn: "mn = concat (map (\<lambda>t. fst (snd (snd t))) ts)" and
    li: "li = concat (map (\<lambda>t. snd (snd (snd t))) ts)"
    unfolding n0_def by blast
  let ?P = "\<lambda>row. \<exists>k. n \<le> k \<and> k < n' \<and> map_of row ''INVOICE_UUID'' = Some (PStr (gen k))"
  have t: "\<forall>row\<in>set (fst (ts ! i)) \<union> set (fst (snd (ts ! i)))
               \<union> set (fst (snd (snd (ts ! i)))) \<union> set (snd (snd (snd (ts ! i)))). ?P row"
    if "i < length ts" for i
  proof -
    from that ts len obtain r where
      "doc_tables r (PStr (gen (n0 + i))) (fst (ps ! i)) (snd (ps ! i)) = Inr (ts ! i)" by auto
    from doc_tables_invoice_uuid [OF this]
    have "\<forall>row\<in>set (fst (ts ! i)) \<union> set (fst (snd (ts ! i)))
               \<union> set (fst (snd (snd (ts ! i)))) \<union> set (snd (snd (snd (ts ! i)))).
            map_of row ''INVOICE_UUID'' = Some (PStr (gen (n0 + i)))" .
    moreover have "n \<le> n0 + i" "n0 + i < n'"
      using that len n' by (auto simp: n0_def)
    ultimately show ?thesis by blast
  qed
  have "\<forall>row\<in>set md. ?P row" unfolding md using t by (intro concat_rows_all) blast
  moreover have "\<forall>row\<in>set ch. ?P row" unfolding ch using t by (intro concat_rows_all) blast
  moreover have "\<forall>row\<in>set mn. ?P row" unfolding mn using t by (intro concat_rows_all) blast
  moreover have "\<forall>row\<in>set li. ?P row" unfolding li using t by (intro concat_rows_all) blast
  ultimately show ?thesis by blast
qed

lemma rows_run_id:
  assumes "invoice_summary_rows gen n results extract_result run_id =
             Inr ((md, ch, mn, li), n')"
  shows "\<forall>row\<in>set md \<union> set ch \<union> set mn \<union> set li.
           map_of row ''RUN_ID'' = Some (if run_id = PNone then PStr (gen n) else run_id)"
proof -
  from rows_Inr [OF assms] obtain ps ts where
    len: "length ts = length ps" and
    ts: "\<forall>i<length ps. \<exists>u. doc_tables (if run_id = PNone then PStr (gen n) else run_id) u
            (fst (ps ! i)) (snd (ps ! i)) = Inr (ts ! i)" and
    md: "md = concat (map fst ts)" and
    ch: "ch = concat (map (\<lambda>t. fst (snd t)) ts)" and
    mn: "mn = concat (map (\<lambda>t. fst (snd (snd t))) ts)" and
    li: "li = concat (map (\<lambda>t. snd (snd (snd t))) ts)"
    by blast
  have t: "\<forall>i<length ts. \<forall>row\<in>set (fst (ts ! i)) \<union> set (fst (snd (ts ! i)))
               \<union> set (fst (snd (snd (ts ! i)))) \<union> set (snd (snd (snd (ts ! i)))).
             map_of row ''RUN_ID'' = Some (if run_id = PNone then PStr (gen n) else run_id)"
    using ts len doc_tables_run_id by metis
  have "\<forall>row\<in>set md. map_of row ''RUN_ID'' = Some (if run_id = PNone then PStr (gen n) else run_id)"
    unfolding md using t by (intro concat_rows_all) blast
  moreover
  have "\<forall>row\<in>set ch. map_of row ''RUN_ID'' = Some (if run_id = PNone then PStr (gen n) else run_id)"
    unfolding ch using t by (intro concat_rows_all) blast
  moreover
  have "\<forall>row\<in>set mn. map_of row ''RUN_ID'' = Some (if run_id = PNone then PStr (gen n) else run_id)"
    unfolding mn using t by (intro concat_rows_all) blast
  moreover
  have "\<forall>row\<in>set li. map_of row ''RUN_ID'' = Some (if run_id = PNone then PStr (gen n) else run_id)"
    unfolding li using t by (intro concat_rows_all) blast
  ultimately show ?thesis by blast
qed

lemma rows_invoice_uuid_join_key:
  assumes inj: "inj gen"
    and c1: "invoice_summary_rows gen n results extract_result run_id =
               Inr ((md, ch, mn, li), n')"
    and ps: "input_pairs results extract_result = Inr ps"
    and later: "n' \<le> m"
    and c2: "invoice_summary_rows gen m results2 extract_result2 run_id2 =
               Inr ((md2, ch2, mn2, li2), m')"
  shows "distinct (invoice_ids gen n run_id (length ps)) \<and>
         map (\<lambda>row. map_of row ''INVOICE_UUID'') md =
           map Some (invoice_ids gen n run_id (length ps)) \<and>
         map (\<lambda>row. map_of row ''INVOICE_UUID'') mn =
           map Some (invoice_ids gen n run_id (length ps)) \<and>
         (\<exists>chs lis.
            ch = concat chs \<and> map length chs = map (\<lambda>(p, e). num_chunks p) ps \<and>
            li = concat lis \<and> map length lis = map (\<lambda>(p, e). num_line_items e) ps \<and>
            (\<forall>i<length ps. \<forall>row\<in>set (chs ! i) \<union> set (lis ! i).
               map_of row ''INVOICE_UUID'' = Some (invoice_ids gen n run_id (length ps) ! i))) \<and>
         (\<forall>row\<in>set md \<union> set ch \<union> set mn \<union> set li.
            \<forall>row2\<in>set md2 \<union> set ch2 \<union> set mn2 \<union> set li2.
              map_of row ''INVOICE_UUID'' \<noteq> map_of row2 ''INVOICE_UUID'')"
proof -
  define n0 where "n0 = (if run_id = PNone then Suc n else n)"
  let ?ids = "invoice_ids gen n run_id (length ps)"
  from rows_Inr [OF c1] ps obtain ts where
    len: "length ts = length ps" and
    ts: "\<forall>i<length ps. \<exists>r. doc_tables r (PStr (gen (n0 + i)))
            (fst (ps ! i)) (snd (ps ! i)) = Inr (ts ! i)" and
    md: "md = concat (map fst ts)" and
    ch: "ch = concat (map (\<lambda>t. fst (snd t)) ts)" and
    mn: "mn = concat (map (\<lambda>t. fst (snd (snd t))) ts)" and
    li: "li = concat (map (\<lambda>t. snd (snd (snd t))) ts)"
    unfolding n0_def by auto
  have ids_nth: "?ids ! i = PStr (gen (n0 + i))" if "i < length ps" for i
    using that by (simp add: invoice_ids_def n0_def)
  have ids_eq: "map Some ?ids = map (\<lambda>i. Some (PStr (gen (n0 + i)))) [0..<length ts]"
    by (simp add: invoice_ids_def n0_def len)
  have doc: "\<exists>r. doc_tables r (PStr (gen (n0 + i))) (fst (ps ! i)) (snd (ps ! i)) = Inr (ts ! i)"
    if "i < length ts" for i
    using that ts len by auto
  have "inj_on (\<lambda>i. PStr (gen (n0 + i))) A" for A
    using inj by (auto intro!: inj_onI dest: injD)
  then have 1: "distinct ?ids"
    by (simp add: invoice_ids_def distinct_map n0_def)
  have "map (\<lambda>row. map_of row ''INVOICE_UUID'') (concat (map fst ts)) =
          map (\<lambda>i. Some (PStr (gen (n0 + i)))) [0..<length ts]"
  proof (rule singleton_column, intro allI impI)
    fix i assume "i < length ts"
    then obtain r where d: "doc_tables r (PStr (gen (n0 + i))) (fst (ps ! i)) (snd (ps ! i))
                              = Inr (ts ! i)"
      using doc by blast
    from doc_tables_Inr [OF d] obtain x where x: "fst (ts ! i) = [x]" by auto
    with doc_tables_invoice_uuid [OF d]
    show "\<exists>x. fst (ts ! i) = [x] \<and> map_of x ''INVOICE_UUID'' = Some (PStr (gen (n0 + i)))"
      by simp
  qed
  then have 2: "map (\<lambda>row. map_of row ''INVOICE_UUID'') md = map Some ?ids"
    unfolding md ids_eq .
  have "map (\<lambda>row. map_of row ''INVOICE_UUID'') (concat (map (\<lambda>t. fst (snd (snd t))) ts)) =
          map (\<lambda>i. Some (PStr (gen (n0 + i)))) [0..<length ts]"
  proof (rule singleton_column, intro allI impI)
    fix i assume "i < length ts"
    then obtain r where d: "doc_tables r (PStr (gen (n0 + i))) (fst (ps ! i)) (snd (ps ! i))
                              = Inr (ts ! i)"
      using doc by blast
    from doc_tables_Inr [OF d] obtain x where x: "fst (snd (snd (ts ! i))) = [x]" by auto
    with doc_tables_invoice_uuid [OF d]
    show "\<exists>x. fst (snd (snd (ts ! i))) = [x] \<and>
              map_of x ''INVOICE_UUID'' = Some (PStr (gen (n0 + i)))"
      by simp
  qed
  then have 3: "map (\<lambda>row. map_of row ''INVOICE_UUID'') mn = map Some ?ids"
    unfolding mn ids_eq .
  let ?chs = "map (\<lambda>t. fst (snd t)) ts" and ?lis = "map (\<lambda>t. snd (snd (snd t))) ts"
  have lens: "length (fst (snd (ts ! i))) = num_chunks (fst (ps ! i)) \<and>
              length (snd (snd (snd (ts ! i)))) = num_line_items (snd (ps ! i))"
    if "i < length ts" for i
  proof -
    from doc [OF that] obtain r where
      "doc_tables r (PStr (gen (n0 + i))) (fst (ps ! i)) (snd (ps ! i)) = Inr (ts ! i)" by blast
    from doc_tables_lengths [OF this] show ?thesis by simp
  qed
  have 4: "map length ?chs = map (\<lambda>(p, e). num_chunks p) ps"
    using lens len by (intro nth_equalityI) (simp_all add: case_prod_beta)
  have 5: "map length ?lis = map (\<lambda>(p, e). num_line_items e) ps"
    using lens len by (intro nth_equalityI) (simp_all add: case_prod_beta)
  have 6: "\<forall>i<length ps. \<forall>row\<in>set (?chs ! i) \<union> set (?lis ! i).
             map_of row ''INVOICE_UUID'' = Some (?ids ! i)"
  proof (intro allI impI)
    fix i assume i: "i < length ps"
    then obtain r where
      "doc_tables r (PStr (gen (n0 + i))) (fst (ps ! i)) (snd (ps ! i)) = Inr (ts ! i)"
      using ts by blast
    from doc_tables_invoice_uuid [OF this] i len
    show "\<forall>row\<in>set (?chs ! i) \<union> set (?lis ! i). map_of row ''INVOICE_UUID'' = Some (?ids ! i)"
      by (auto simp: ids_nth)
  qed
  have 7: "\<forall>row\<in>set md \<union> set ch \<union> set mn \<union> set li.
             \<forall>row2\<in>set md2 \<union> set ch2 \<union> set mn2 \<union> set li2.
               map_of row ''INVOICE_UUID'' \<noteq> map_of row2 ''INVOICE_UUID''"
  proof (intro ballI)
    fix row row2
    assume "row \<in> set md \<union> set ch \<union> set mn \<union> set li"
      and "row2 \<in> set md2 \<union> set ch2 \<union> set mn2 \<union> set li2"
    with rows_drawn [OF c1] rows_drawn [OF c2] obtain k k2 where
      "k < n'" "map_of row ''INVOICE_UUID'' = Some (PStr (gen k))"
      "m \<le> k2" "map_of row2 ''INVOICE_UUID'' = Some (PStr (gen k2))"
      by blast
    moreover from this later have "gen k \<noteq> gen k2"
      using inj by (auto dest: injD)
    ultimately show "map_of row ''INVOICE_UUID'' \<noteq> map_of row2 ''INVOICE_UUID''" by simp
  qed
  from ch li 1 2 3 4 5 6 7 show ?thesis by blast
qed

lemma create_Inr:
  assumes "create_invoice_summary_tables gen n results extract_result run_id =
             Inr ((md, ch, mn, li), n')"
  obtains md0 ch0 mn0 li0 where
    "invoice_summary_rows gen n results extract_result run_id = Inr ((md0, ch0, mn0, li0), n')"
    "md = DataFrame md0" "ch = DataFrame ch0" "mn = DataFrame mn0" "li = DataFrame li0"
  using assms by (auto simp: create_invoice_summary_tables_def split: sum.splits)

lemma blocks_transfer:
  "map g ys = map g (concat xss) \<Longrightarrow>
     \<exists>yss. ys = concat yss \<and> map length yss = map length xss \<and>
       (\<forall>i<length xss. map g (yss ! i) = map g (xss ! i))"
proof (induction xss arbitrary: ys)
  case Nil
  then show ?case by (intro exI [of _ "[]"]) simp
next
  case (Cons xs xss)
  let ?a = "take (length xs) ys" and ?b = "drop (length xs) ys"
  from Cons.prems have len: "length ys = length xs + length (concat xss)"
    by (metis length_map length_append concat.simps(2))
  have "map g ?a = take (length xs) (map g ys)" by (simp add: take_map)
  also have "\<dots> = take (length xs) (map g xs @ map g (concat xss))" using Cons.prems by simp
  finally have a: "map g ?a = map g xs" by simp
  have "map g ?b = drop (length xs) (map g ys)" by (simp add: drop_map)
  also have "\<dots> = drop (length xs) (map g xs @ map g (concat xss))" using Cons.prems by simp
  finally have "map g ?b = map g (concat xss)" by simp
  from Cons.IH [OF this] obtain yss where
    yss: "?b = concat yss" "map length yss = map length xss"
      "\<forall>i<length xss. map g (yss ! i) = map g (xss ! i)"
    by blast
  have "ys = concat (?a # yss)" using yss(1) by (metis append_take_drop_id concat.simps(2))
  moreover have "map length (?a # yss) = map length (xs # xss)"
    using yss(2) len by simp
  moreover have "\<forall>i<length (xs # xss). map g ((?a # yss) ! i) = map g ((xs # xss) ! i)"
  proof (intro allI impI)
    fix i assume "i < length (xs # xss)"
    then show "map g ((?a # yss) ! i) = map g ((xs # xss) ! i)"
      using a yss(3) by (cases i) auto
  qed
  ultimately show ?case by blast
qed

lemma rows_uuid_kept:
  assumes "invoice_summary_rows gen n results extract_result run_id =
             Inr ((md0, ch0, mn0, li0), n')"
    and "t \<in> {md0, ch0, mn0, li0}"
  shows "map (\<lambda>row. map_of row ''INVOICE_UUID'') (DataFrame t) =
           map (\<lambda>row. map_of row ''INVOICE_UUID'') t"
proof (rule DataFrame_kept_column, rule ballI)
  fix r assume "r \<in> set t"
  with assms(2) have "r \<in> set md0 \<union> set ch0 \<union> set mn0 \<union> set li0" by auto
  with rows_drawn [OF assms(1)] obtain k where
    "map_of r ''INVOICE_UUID'' = Some (PStr (gen k))" by blast
  then show "\<exists>v. map_of r ''INVOICE_UUID'' = Some v \<and> to_float v = v" by simp
qed

lemma create_rows_drawn:
  assumes "create_invoice_summary_tables gen n results extract_result run_id =
             Inr ((md, ch, mn, li), n')"
  shows "\<forall>row\<in>set md \<union> set ch \<union> set mn \<union> set li.
           \<exists>k. n \<le> k \<and> k < n' \<and> map_of row ''INVOICE_UUID'' = Some (PStr (gen k))"
proof
  fix row assume row: "row \<in> set md \<union> set ch \<union> set mn \<union> set li"
  from assms obtain md0 ch0 mn0 li0 where
    r: "invoice_summary_rows gen n results extract_result run_id = Inr ((md0, ch0, mn0, li0), n')"
    and t: "md = DataFrame md0" "ch = DataFrame ch0" "mn = DataFrame mn0" "li = DataFrame li0"
    by (rule create_Inr)
  let ?g = "\<lambda>row. map_of row ''INVOICE_UUID''"
  from row t obtain t0 where t0: "t0 \<in> {md0, ch0, mn0, li0}" "row \<in> set (DataFrame t0)" by auto
  then have "?g row \<in> set (map ?g (DataFrame t0))" by simp
  then have "?g row \<in> set (map ?g t0)" using rows_uuid_kept [OF r t0(1)] by simp
  then obtain row0 where "row0 \<in> set t0" "?g row = ?g row0" by auto
  with t0(1) rows_drawn [OF r] show
    "\<exists>k. n \<le> k \<and> k < n' \<and> map_of row ''INVOICE_UUID'' = Some (PStr (gen k))"
    by auto
qed

lemma seq_items_iterate: "seq_items c = Some cs \<Longrightarrow> iterate c = Inr cs"
  by (cases c) auto

lemma doc_line_items_conforms:
  assumes "case line_items_value e of Some v \<Rightarrow> v = PNone \<or> seq_items v \<noteq> None | None \<Rightarrow> True"
  shows "doc_line_items e = Inr (line_items_of e)"
proof -
  have x: "doc_extraction e = extraction_of e"
    by (simp add: doc_extraction_def extraction_of_def getattr_default_def attribute_def)
  show ?thesis
  proof (cases "line_items_value e")
    case None
    then have "safe_get (extraction_of e) [''line_items''] = PNone"
      by (cases "extraction_of e") (auto simp: line_items_value_def)
    with None show ?thesis
      by (simp add: doc_line_items_def x line_items_of_def py_or_def)
  next
    case (Some v)
    then have s: "safe_get (extraction_of e) [''line_items''] = v"
      by (cases "extraction_of e") (auto simp: line_items_value_def)
    from assms Some consider "v = PNone" | xs where "seq_items v = Some xs" by auto
    then show ?thesis
    proof cases
      case 1
      with Some s show ?thesis
        by (simp add: doc_line_items_def x line_items_of_def py_or_def)
    next
      case 2
      then have "iterate (py_or v (PList [])) = Inr xs"
        by (cases v) (auto simp: py_or_def)
      with Some s 2 show ?thesis
        by (simp add: doc_line_items_def x line_items_of_def)
    qed
  qed
qed

lemma doc_tables_conforms:
  assumes "conforms (p, e)"
  shows "doc_tables r u p e = Inr (doc_rows r u (p, e))"
proof -
  from assms obtain m md c cs where
    a: "attribute p ''metadata'' = Some m" "attribute p ''markdown'' = Some md"
       "attribute p ''chunks'' = Some c" "seq_items c = Some cs"
    by (auto simp: conforms_def split: option.splits)
  have li: "doc_line_items e = Inr (line_items_of e)"
    using assms by (intro doc_line_items_conforms) (simp add: conforms_def)
  have ch: "doc_chunks p = Inr (chunks_of p)"
    using a by (simp add: doc_chunks_def getattr_def attribute_def chunks_of_def seq_items_iterate)
  have x: "doc_extraction e = extraction_of e"
    by (simp add: doc_extraction_def extraction_of_def getattr_default_def attribute_def)
  show ?thesis
    using a li ch x
    by (simp add: doc_tables_def getattr_def attribute_def [symmetric] Let_def doc_rows_def
          document_name_of_def version_of_def attr_or_null_def getattr_default_def)
qed

lemma append_tables_assoc:
  "append_tables (append_tables a b) c = append_tables a (append_tables b c)"
  by (cases a; cases b; cases c) simp

lemma append_tables_empty [simp]: "append_tables t ([], [], [], []) = t"
  by (cases t) simp

lemma process_docs_conforms:
  "list_all conforms ps \<Longrightarrow>
     process_docs gen k r (map mk_pair ps) acc =
       Inr (append_tables acc (batch_rows gen k r ps), k + length ps)"
proof (induction ps arbitrary: k acc)
  case Nil
  then show ?case by simp
next
  case (Cons pe ps)
  obtain p e where pe: "pe = (p, e)" by (cases pe)
  with Cons.prems have c: "conforms (p, e)" and rest: "list_all conforms ps" by simp_all
  have u: "unpack2 (mk_pair pe) = Inr (p, e)" by (simp add: mk_pair_def unpack2_def pe)
  show ?case
    using u doc_tables_conforms [OF c] Cons.IH [OF rest] pe
    by (simp add: append_tables_assoc)
qed

lemma rows_conforms:
  assumes "passes ps results extract_result" and "list_all conforms ps"
  shows "invoice_summary_rows gen n results extract_result run_id =
           Inr (batch_rows gen (if run_id = PNone then Suc n else n)
                  (if run_id = PNone then PStr (gen n) else run_id) ps,
                (if run_id = PNone then Suc n else n) + length ps)"
proof -
  have e: "append_tables ([], [], [], []) t = t" for t by (cases t) simp
  from assms(1) consider "results = PList (map mk_pair ps)"
    | "\<not> isinstance_list results" "extract_result \<noteq> PNone" "ps = [(results, extract_result)]"
    by (auto simp: passes_def)
  then have "results_list results extract_result = Inr (map mk_pair ps)"
  proof cases
    case 1
    then show ?thesis by (simp add: results_list_def)
  next
    case 2
    then show ?thesis by (cases results) (simp_all add: results_list_def mk_pair_def)
  qed
  then show ?thesis
    using process_docs_conforms [OF assms(2)]
    by (simp add: invoice_summary_rows_def e del: process_docs.simps)
qed

lemma batch_rows_lengths:
  "length (fst (batch_rows gen k r ps)) = length ps \<and>
   length (fst (snd (snd (batch_rows gen k r ps)))) = length ps \<and>
   length (fst (snd (batch_rows gen k r ps))) =
     sum_list (map (\<lambda>pe. length (chunks_of (fst pe))) ps) \<and>
   length (snd (snd (snd (batch_rows gen k r ps)))) =
     sum_list (map (\<lambda>pe. length (line_items_of (snd pe))) ps)"
proof (induction ps arbitrary: k)
  case Nil
  then show ?case by simp
next
  case (Cons pe ps)
  obtain a b c d where t: "batch_rows gen (Suc k) r ps = (a, b, c, d)"
    by (cases "batch_rows gen (Suc k) r ps")
  with Cons.IH [of "Suc k"] show ?case by (simp add: doc_rows_def)
qed

lemma batch_rows_header:
  "map (drop 4) (fst (snd (snd (batch_rows gen k r ps)))) =
     map (\<lambda>pe. header_cells (extraction_of (snd pe))) ps"
proof (induction ps arbitrary: k)
  case Nil
  then show ?case by simp
next
  case (Cons pe ps)
  obtain a b c d where t: "batch_rows gen (Suc k) r ps = (a, b, c, d)"
    by (cases "batch_rows gen (Suc k) r ps")
  with Cons.IH [of "Suc k"] show ?case
    by (simp add: doc_rows_def header_cells_def main_data_fields)
qed

lemma batch_rows_markdown:
  "map (\<lambda>row. map_of row ''MARKDOWN'') (fst (batch_rows gen k r ps)) =
     map (\<lambda>pe. Some (attr_or_null (fst pe) ''markdown'')) ps"
proof (induction ps arbitrary: k)
  case Nil
  then show ?case by simp
next
  case (Cons pe ps)
  obtain a b c d where t: "batch_rows gen (Suc k) r ps = (a, b, c, d)"
    by (cases "batch_rows gen (Suc k) r ps")
  with Cons.IH [of "Suc k"] show ?case
    by (simp add: doc_rows_def markdown_row_def)
qed

lemma chunk_row_grounding:
  "map (map_of (chunk_row r u d c)) grounding_columns = map Some (grounding_cells c)"
  unfolding grounding_columns_def chunk_row_cells
  by (simp add: grounding_cells_def attr_or_null_def attribute_def getattr_default_def Let_def
        split: option.splits)

lemma batch_rows_grounding:
  "map (\<lambda>row. map (map_of row) grounding_columns) (fst (snd (batch_rows gen k r ps))) =
   concat (map (\<lambda>pe. map (\<lambda>c. map Some (grounding_cells c)) (chunks_of (fst pe))) ps)"
proof (induction ps arbitrary: k)
  case Nil
  then show ?case by simp
next
  case (Cons pe ps)
  obtain a b c d where t: "batch_rows gen (Suc k) r ps = (a, b, c, d)"
    by (cases "batch_rows gen (Suc k) r ps")
  with Cons.IH [of "Suc k"] show ?case
    by (simp add: doc_rows_def chunk_row_grounding)
qed

lemma create_conforms:
  assumes "passes ps results extract_result" and "list_all conforms ps"
    and "B = batch_rows gen (if run_id = PNone then Suc n else n)
               (if run_id = PNone then PStr (gen n) else run_id) ps"
  shows "invoice_summary_rows gen n results extract_result run_id =
           Inr ((fst B, fst (snd B), fst (snd (snd B)), snd (snd (snd B))),
                (if run_id = PNone then Suc n else n) + length ps)"
    and "create_invoice_summary_tables gen n results extract_result run_id =
           Inr ((DataFrame (fst B), DataFrame (fst (snd B)), DataFrame (fst (snd (snd B))),
                 DataFrame (snd (snd (snd B)))),
                (if run_id = PNone then Suc n else n) + length ps)"
proof -
  show 1: "invoice_summary_rows gen n results extract_result run_id =
           Inr ((fst B, fst (snd B), fst (snd (snd B)), snd (snd (snd B))),
                (if run_id = PNone then Suc n else n) + length ps)"
    using rows_conforms [OF assms(1,2), of gen n run_id] assms(3) by simp
  then show "create_invoice_summary_tables gen n results extract_result run_id =
           Inr ((DataFrame (fst B), DataFrame (fst (snd B)), DataFrame (fst (snd (snd B))),
                 DataFrame (snd (snd (snd B)))),
                (if run_id = PNone then Suc n else n) + length ps)"
    by (simp add: create_invoice_summary_tables_def case_prod_beta)
qed

lemma defect_raises:
  assumes "defect x = Some err"
  shows "(case unpack2 x of
            Inl e \<Rightarrow> Inl e
          | Inr (p, e) \<Rightarrow> (case doc_tables r u p e of Inl e \<Rightarrow> Inl e | Inr t \<Rightarrow> K t)) = Inl err"
proof (cases "is_scalar x")
  case True
  with assms show ?thesis by (cases x) (auto simp: defect_def unpack2_def)
next
  case False
  with assms obtain vs where vs: "seq_items x = Some vs"
    by (auto simp: defect_def split: option.splits)
  then have it: "iterate x = Inr vs" by (rule seq_items_iterate)
  show ?thesis
  proof (cases "\<exists>p e. vs = [p, e]")
    case True
    then obtain p e where pe: "vs = [p, e]" by blast
    with assms False vs have pd: "parse_defect p = Some err" by (simp add: defect_def)
    have "doc_tables r u p e = Inl err"
    proof (cases "attribute p ''metadata''")
      case None
      with pd show ?thesis
        by (simp add: parse_defect_def doc_tables_def getattr_def attribute_def)
    next
      case m: (Some m)
      show ?thesis
      proof (cases "attribute p ''markdown''")
        case None
        with pd m show ?thesis
          by (simp add: parse_defect_def doc_tables_def getattr_def attribute_def Let_def)
      next
        case md: (Some md)
        show ?thesis
        proof (cases "attribute p ''chunks''")
          case None
          with pd m md show ?thesis
            by (simp add: parse_defect_def doc_tables_def getattr_def attribute_def Let_def
                  doc_chunks_def)
        next
          case (Some c)
          with pd m md have "is_scalar c" and "err = TypeError ''object is not iterable''"
            by (auto simp: parse_defect_def split: if_splits)
          then have "iterate c = Inl err" by (cases c) auto
          with m md Some show ?thesis
            by (simp add: doc_tables_def getattr_def attribute_def Let_def doc_chunks_def)
        qed
      qed
    qed
    with it pe show ?thesis by (simp add: unpack2_def)
  next
    case no: False
    with assms False vs have
      "err = ValueError (if length vs < 2 then ''not enough values to unpack''
                         else ''too many values to unpack'')"
      by (auto simp: defect_def split: list.splits)
    with it no show ?thesis by (auto simp: unpack2_def split: list.splits)
  qed
qed

lemma process_docs_defect:
  "list_all conforms good \<Longrightarrow> defect bad = Some err \<Longrightarrow>
     process_docs gen k r (map mk_pair good @ bad # rest) acc = Inl err"
proof (induction good arbitrary: k acc)
  case Nil
  with defect_raises [where x = bad and err = err and r = r and u = "PStr (gen k)"]
  show ?case by simp
next
  case (Cons pe good)
  obtain p e where pe: "pe = (p, e)" by (cases pe)
  with Cons.prems have c: "conforms (p, e)" and rest: "list_all conforms good" by simp_all
  have u: "unpack2 (mk_pair pe) = Inr (p, e)" by (simp add: mk_pair_def unpack2_def pe)
  show ?case
    using u doc_tables_conforms [OF c] Cons.IH [OF rest Cons.prems(2)] by simp
qed

lemma attrs_of_pydantic [simp]: "attrs_of (pydantic fs) = fs"
  by (simp add: pydantic_def)

lemma pydantic_kind [simp]:
  "\<not> isinstance_list (pydantic fs)" "\<not> isinstance_dict (pydantic fs)" "truthy (pydantic fs)"
  "pydantic fs \<noteq> PNone" "seq_items (pydantic fs) = None" "\<not> is_scalar (pydantic fs)"
  by (simp_all add: pydantic_def)

lemma conforms_ex_parse [simp]: "conforms (ex_parse, e) =
    (case line_items_value e of Some v \<Rightarrow> v = PNone \<or> seq_items v \<noteq> None | None \<Rightarrow> True)"
  by (simp add: conforms_def attribute_def ex_parse_def)

lemma conforms_ex_parse2 [simp]: "conforms (ex_parse2, e) =
    (case line_items_value e of Some v \<Rightarrow> v = PNone \<or> seq_items v \<noteq> None | None \<Rightarrow> True)"
  by (simp add: conforms_def attribute_def ex_parse2_def)

lemma ex_conforms: "list_all conforms ex_pairs"
  by (simp add: ex_pairs_def line_items_value_def extraction_of_def attribute_def ex_extract_def
        ex_extraction_def)

lemma ex_tax_conforms: "list_all conforms ex_tax_pairs"
  by (simp add: ex_tax_pairs_def line_items_value_def extraction_of_def attribute_def
        ex_tax_extract_def)

lemma ex_passes: "passes ex_pairs ex_batch e"
  by (simp add: passes_def ex_pairs_def ex_batch_def mk_pair_def)

lemma ex_tax_passes: "passes ex_tax_pairs ex_tax_batch e"
  by (simp add: passes_def ex_tax_pairs_def ex_tax_batch_def mk_pair_def)

lemma ex_single_passes: "passes [(ex_parse2, PObj [] None)] ex_parse2 (PObj [] None)"
  by (simp add: passes_def ex_parse2_def)

lemma ex_single_conforms: "list_all conforms [(ex_parse2, PObj [] None)]"
  by (simp add: line_items_value_def extraction_of_def attribute_def)

lemma inj_ex_gen: "inj ex_gen"
proof (rule injI)
  fix x y assume "ex_gen x = ex_gen y"
  then have "length (ex_gen x) = length (ex_gen y)" by simp
  then show "x = y" by (simp add: ex_gen_def)
qed

lemma ex_call:
  "create_invoice_summary_tables ex_gen 0 ex_batch PNone PNone =
     Inr ((fst ex_tables, fst (snd ex_tables), fst (snd (snd ex_tables)),
           snd (snd (snd ex_tables))), 3)"
proof -
  have "length ex_pairs = 2" by (simp add: ex_pairs_def)
  with create_conforms(2) [OF ex_passes [of PNone] ex_conforms refl,
         where gen = ex_gen and n = 0 and run_id = PNone]
  obtain T where "create_invoice_summary_tables ex_gen 0 ex_batch PNone PNone = Inr (T, 3)"
    by auto
  then show ?thesis by (simp add: ex_tables_def)
qed

lemma ex_call2:
  "\<exists>md2 ch2 mn2 li2.
     create_invoice_summary_tables ex_gen 3 ex_parse2 (PObj [] None) (PStr ''run-2'') =
       Inr ((md2, ch2, mn2, li2), 4)"
  using create_conforms(2) [OF ex_single_passes ex_single_conforms refl,
          where gen = ex_gen and n = 3 and run_id = "PStr ''run-2''"]
  by auto

lemma ex_input_pairs: "input_pairs ex_batch PNone = Inr ex_pairs"
  by (simp add: input_pairs_def results_list_def ex_batch_def unpack2_def ex_pairs_def)

lemma DataFrame_column:
  assumes "\<forall>r\<in>set rows. map_of r c \<noteq> None"
  shows "map (cell c) (DataFrame rows) = convert_column (map (cell c) rows)"
proof (rule nth_equalityI)
  show "length (map (cell c) (DataFrame rows)) = length (convert_column (map (cell c) rows))"
    by (simp add: DataFrame_length convert_column_length)
next
  fix j assume "j < length (map (cell c) (DataFrame rows))"
  then have j: "j < length rows" by (simp add: DataFrame_length)
  with assms obtain v where "map_of (rows ! j) c = Some v" by force
  from DataFrame_cell [OF j this] j
  show "map (cell c) (DataFrame rows) ! j = convert_column (map (cell c) rows) ! j"
    by (simp add: DataFrame_length cell_def)
qed

lemma map_const_replicate: "\<forall>x\<in>set xs. f x = v \<Longrightarrow> map f xs = replicate (length xs) v"
  by (induction xs) auto

lemma ex_lengths:
  "length (fst ex_tables) = 2 \<and> length (fst (snd ex_tables)) = 3 \<and>
   length (fst (snd (snd ex_tables))) = 2 \<and> length (snd (snd (snd ex_tables))) = 2"
proof -
  define B where "B = batch_rows ex_gen (Suc 0) (PStr (ex_gen 0)) ex_pairs"
  have v: "sum_list (map (\<lambda>pe. length (chunks_of (fst pe))) ex_pairs) = 3"
    "sum_list (map (\<lambda>pe. length (line_items_of (snd pe))) ex_pairs) = 2" "length ex_pairs = 2"
    by (simp_all add: ex_pairs_def chunks_of_def line_items_of_def line_items_value_def
          extraction_of_def attribute_def ex_parse_def ex_parse2_def ex_extract_def
          ex_extraction_def)
  from create_conforms(2) [OF ex_passes [of PNone] ex_conforms,
         where gen = ex_gen and n = 0 and run_id = PNone and B = B]
  have e: "ex_tables = (DataFrame (fst B), DataFrame (fst (snd B)), DataFrame (fst (snd (snd B))),
                        DataFrame (snd (snd (snd B))))"
    by (simp add: B_def ex_tables_def)
  show ?thesis
    unfolding e
    using batch_rows_lengths [of ex_gen "Suc 0" "PStr (ex_gen 0)" ex_pairs]
    by (simp add: DataFrame_length B_def v)
qed

section \<open>Properties\<close>

text \<open>
  Claim C9. Calling \<open>create_invoice_summary_tables\<close> with a zero-length batch (an empty
  list of pairs) raises no error and returns four tables with zero rows each. The only
  effect is the draw of the run id when the caller gave none.
\<close>

theorem empty_batch_four_empty_tables:
  "create_invoice_summary_tables gen n (PList []) extract_result run_id =
     Inr (([], [], [], []), if run_id = PNone then Suc n else n)"
  by (simp add: create_invoice_summary_tables_def invoice_summary_rows_def results_list_def
        DataFrame_def)

text \<open>
  Claim C5. In single document mode (the first argument is not a list) with no extract
  result, the call raises the \<open>ValueError\<close> that names the missing parameter. It does so
  before the run id is drawn and before the loop starts; an exception returns nothing, so
  no table, whole or partial, comes out.
\<close>

theorem single_mode_requires_extract_result:
  "\<not> isinstance_list results \<Longrightarrow>
     create_invoice_summary_tables gen n results PNone run_id =
       Inl (ValueError ''In single document mode, extract_result parameter is required'')"
  by (cases results)
     (simp_all add: create_invoice_summary_tables_def invoice_summary_rows_def results_list_def)

text \<open>
  Witness for C5: a parse result alone, without extract result.
\<close>

theorem single_mode_requires_extract_result_witness:
  "\<not> isinstance_list ex_parse \<and>
   create_invoice_summary_tables ex_gen 0 ex_parse PNone PNone =
     Inl (ValueError ''In single document mode, extract_result parameter is required'')"
  using single_mode_requires_extract_result [where results = ex_parse and gen = ex_gen and n = 0
          and run_id = PNone]
  by (simp add: ex_parse_def)

text \<open>
  Claim C10. The mode depends only on whether the first argument is a list. For a list
  the \<open>extract_result\<close> parameter does not influence the result, whatever it is. Any
  other first argument is taken as one parse result and paired with \<open>extract_result\<close>:
  the call behaves as the batch of that one pair (or raises the \<open>ValueError\<close> of single
  document mode when \<open>extract_result\<close> is \<open>None\<close>). What either mode does with its
  pairs is fixed by the third part: for pairs that conform to the data model the call
  returns, and its markdown rows are the markdown texts of the pairs, one per pair and in
  their order. The last part is the tuple: whatever it holds, pairs included, it is read
  as a parse result and fails on the \<open>metadata\<close> that a tuple does not have.
\<close>

theorem mode_dispatch_on_list_only:
  "(isinstance_list results \<longrightarrow>
      create_invoice_summary_tables gen n results extract_result run_id =
      create_invoice_summary_tables gen n results PNone run_id) \<and>
   (\<not> isinstance_list results \<longrightarrow>
      create_invoice_summary_tables gen n results extract_result run_id =
        (if extract_result = PNone
         then Inl (ValueError ''In single document mode, extract_result parameter is required'')
         else create_invoice_summary_tables gen n (PList [PTuple [results, extract_result]])
                PNone run_id)) \<and>
   (passes ps results extract_result \<and> list_all conforms ps \<longrightarrow>
      (\<exists>md ch mn li n'.
         invoice_summary_rows gen n results extract_result run_id =
           Inr ((md, ch, mn, li), n') \<and>
         create_invoice_summary_tables gen n results extract_result run_id =
           Inr ((DataFrame md, DataFrame ch, DataFrame mn, DataFrame li), n') \<and>
         map (\<lambda>row. map_of row ''MARKDOWN'') md =
           map (\<lambda>pe. Some (attr_or_null (fst pe) ''markdown'')) ps)) \<and>
   (extract_result \<noteq> PNone \<longrightarrow>
      create_invoice_summary_tables gen n (PTuple xs) extract_result run_id =
        Inl (AttributeError ''metadata''))"
proof (intro conjI impI)
  assume "isinstance_list results"
  then show "create_invoice_summary_tables gen n results extract_result run_id =
             create_invoice_summary_tables gen n results PNone run_id"
    by (cases results)
       (simp_all add: create_invoice_summary_tables_def invoice_summary_rows_def results_list_def)
next
  assume "\<not> isinstance_list results"
  then show "create_invoice_summary_tables gen n results extract_result run_id =
        (if extract_result = PNone
         then Inl (ValueError ''In single document mode, extract_result parameter is required'')
         else create_invoice_summary_tables gen n (PList [PTuple [results, extract_result]])
                PNone run_id)"
    by (cases results)
       (simp_all add: create_invoice_summary_tables_def invoice_summary_rows_def results_list_def
          del: process_docs.simps)
next
  assume a: "passes ps results extract_result \<and> list_all conforms ps"
  let ?B = "batch_rows gen (if run_id = PNone then Suc n else n)
              (if run_id = PNone then PStr (gen n) else run_id) ps"
  from a have p: "passes ps results extract_result" and f: "list_all conforms ps" by simp_all
  note c = create_conforms [OF p f refl, where gen = gen and n = n and run_id = run_id]
  show "\<exists>md ch mn li n'.
         invoice_summary_rows gen n results extract_result run_id =
           Inr ((md, ch, mn, li), n') \<and>
         create_invoice_summary_tables gen n results extract_result run_id =
           Inr ((DataFrame md, DataFrame ch, DataFrame mn, DataFrame li), n') \<and>
         map (\<lambda>row. map_of row ''MARKDOWN'') md =
           map (\<lambda>pe. Some (attr_or_null (fst pe) ''markdown'')) ps"
    using c batch_rows_markdown [of gen _ _ ps]
    by (intro exI [of _ "fst ?B"] exI [of _ "fst (snd ?B)"] exI [of _ "fst (snd (snd ?B))"]
          exI [of _ "snd (snd (snd ?B))"] exI [of _ "(if run_id = PNone then Suc n else n) + length ps"])
       simp
next
  assume "extract_result \<noteq> PNone"
  then show "create_invoice_summary_tables gen n (PTuple xs) extract_result run_id =
        Inl (AttributeError ''metadata'')"
    by (simp add: create_invoice_summary_tables_def invoice_summary_rows_def results_list_def
          unpack2_def doc_tables_def getattr_def)
qed

text \<open>
  Witness for C10: the example batch with a stray extract result, and a tuple holding one
  pair.
\<close>

theorem mode_dispatch_on_list_only_witness:
  "isinstance_list ex_batch \<and>
   create_invoice_summary_tables ex_gen 0 ex_batch ex_extract PNone =
     create_invoice_summary_tables ex_gen 0 ex_batch PNone PNone \<and>
   passes ex_pairs ex_batch ex_extract \<and> list_all conforms ex_pairs \<and>
   (\<exists>md ch mn li n'.
      invoice_summary_rows ex_gen 0 ex_batch ex_extract PNone = Inr ((md, ch, mn, li), n') \<and>
      create_invoice_summary_tables ex_gen 0 ex_batch ex_extract PNone =
        Inr ((DataFrame md, DataFrame ch, DataFrame mn, DataFrame li), n') \<and>
      map (\<lambda>row. map_of row ''MARKDOWN'') md = [Some (PStr ''Invoice''), Some (PStr ''Receipt'')]) \<and>
   \<not> isinstance_list (PTuple [PTuple [ex_parse, ex_extract]]) \<and> ex_extract \<noteq> PNone \<and>
   create_invoice_summary_tables ex_gen 0 (PTuple [PTuple [ex_parse, ex_extract]]) ex_extract PNone =
     create_invoice_summary_tables ex_gen 0
       (PList [PTuple [PTuple [PTuple [ex_parse, ex_extract]], ex_extract]]) PNone PNone \<and>
   create_invoice_summary_tables ex_gen 0 (PTuple [PTuple [ex_parse, ex_extract]]) ex_extract PNone =
     Inl (AttributeError ''metadata'')"
proof -
  have e: "ex_extract \<noteq> PNone" by (simp add: ex_extract_def)
  have l: "isinstance_list ex_batch" by (simp add: ex_batch_def)
  have t: "\<not> isinstance_list (PTuple [PTuple [ex_parse, ex_extract]])" by simp
  have m: "map (\<lambda>pe. Some (attr_or_null (fst pe) ''markdown'')) ex_pairs =
             [Some (PStr ''Invoice''), Some (PStr ''Receipt'')]"
    by (simp add: ex_pairs_def attr_or_null_def attribute_def ex_parse_def ex_parse2_def)
  note b = mode_dispatch_on_list_only [where results = ex_batch and gen = ex_gen and n = 0
         and extract_result = ex_extract and run_id = PNone and ps = ex_pairs and xs = "[]"]
  note s = mode_dispatch_on_list_only [where results = "PTuple [PTuple [ex_parse, ex_extract]]"
         and gen = ex_gen and n = 0 and extract_result = ex_extract and run_id = PNone
         and ps = "[]" and xs = "[PTuple [ex_parse, ex_extract]]"]
  from b l have 1: "create_invoice_summary_tables ex_gen 0 ex_batch ex_extract PNone =
     create_invoice_summary_tables ex_gen 0 ex_batch PNone PNone" by blast
  from b ex_passes [of ex_extract] ex_conforms have
    "\<exists>md ch mn li n'.
      invoice_summary_rows ex_gen 0 ex_batch ex_extract PNone = Inr ((md, ch, mn, li), n') \<and>
      create_invoice_summary_tables ex_gen 0 ex_batch ex_extract PNone =
        Inr ((DataFrame md, DataFrame ch, DataFrame mn, DataFrame li), n') \<and>
      map (\<lambda>row. map_of row ''MARKDOWN'') md =
        map (\<lambda>pe. Some (attr_or_null (fst pe) ''markdown'')) ex_pairs" by blast
  then have 2: "\<exists>md ch mn li n'.
      invoice_summary_rows ex_gen 0 ex_batch ex_extract PNone = Inr ((md, ch, mn, li), n') \<and>
      create_invoice_summary_tables ex_gen 0 ex_batch ex_extract PNone =
        Inr ((DataFrame md, DataFrame ch, DataFrame mn, DataFrame li), n') \<and>
      map (\<lambda>row. map_of row ''MARKDOWN'') md = [Some (PStr ''Invoice''), Some (PStr ''Receipt'')]"
    unfolding m .
  from s t e have 3:
    "create_invoice_summary_tables ex_gen 0 (PTuple [PTuple [ex_parse, ex_extract]]) ex_extract PNone =
     create_invoice_summary_tables ex_gen 0
       (PList [PTuple [PTuple [PTuple [ex_parse, ex_extract]], ex_extract]]) PNone PNone"
    by presburger
  from s e have 4:
    "create_invoice_summary_tables ex_gen 0 (PTuple [PTuple [ex_parse, ex_extract]]) ex_extract PNone =
     Inl (AttributeError ''metadata'')" by blast
  from 1 2 3 4 l t e ex_passes [of ex_extract] ex_conforms show ?thesis by blast
qed

text \<open>
  Claim C8, as amended. The claim as stated counts a batch pair without an extract result
  as malformed input on which the call must fail; the code checks for a missing extract
  result in single document mode only, and there is no other validation. What holds: in
  single document mode without extract result the call raises its \<open>ValueError\<close> at
  once; and when the first argument is a batch whose first malformed element has the
  defect \<open>err\<close> (the elements before it conforming), or a single pair with that defect,
  the call raises \<open>err\<close> when the loop reaches that element, and so returns no table.
\<close>

theorem malformed_input_raises:
  "(\<not> isinstance_list results \<and> extract_result = PNone \<longrightarrow>
      create_invoice_summary_tables gen n results extract_result run_id =
        Inl (ValueError ''In single document mode, extract_result parameter is required'')) \<and>
   (results = PList (map mk_pair good @ bad # rest) \<and> list_all conforms good \<and>
    defect bad = Some err \<longrightarrow>
      create_invoice_summary_tables gen n results extract_result run_id = Inl err) \<and>
   (\<not> isinstance_list results \<and> extract_result \<noteq> PNone \<and>
    defect (PTuple [results, extract_result]) = Some err \<longrightarrow>
      create_invoice_summary_tables gen n results extract_result run_id = Inl err)"
proof (intro conjI impI)
  assume "\<not> isinstance_list results \<and> extract_result = PNone"
  then show "create_invoice_summary_tables gen n results extract_result run_id =
        Inl (ValueError ''In single document mode, extract_result parameter is required'')"
    by (cases results)
       (simp_all add: create_invoice_summary_tables_def invoice_summary_rows_def results_list_def)
next
  assume a: "results = PList (map mk_pair good @ bad # rest) \<and> list_all conforms good \<and>
    defect bad = Some err"
  then have "process_docs gen k r (map mk_pair good @ bad # rest) acc = Inl err" for k r acc
    by (intro process_docs_defect) simp_all
  with a show "create_invoice_summary_tables gen n results extract_result run_id = Inl err"
    by (simp add: create_invoice_summary_tables_def invoice_summary_rows_def results_list_def
          del: process_docs.simps)
next
  assume a: "\<not> isinstance_list results \<and> extract_result \<noteq> PNone \<and>
    defect (PTuple [results, extract_result]) = Some err"
  then have "process_docs gen k r (map mk_pair [] @ PTuple [results, extract_result] # []) acc
               = Inl err" for k r acc
    by (intro process_docs_defect) simp_all
  with a show "create_invoice_summary_tables gen n results extract_result run_id = Inl err"
    by (cases results)
       (simp_all add: create_invoice_summary_tables_def invoice_summary_rows_def results_list_def
          del: process_docs.simps)
qed

text \<open>
  Witness for C8 as amended: a batch whose second element is an integer, and a string in
  the place of the parse result.
\<close>

theorem malformed_input_raises_witness:
  "list_all conforms [(ex_parse, ex_extract)] \<and>
   defect (PInt 5) = Some (TypeError ''object is not iterable'') \<and>
   create_invoice_summary_tables ex_gen 0 (PList [PTuple [ex_parse, ex_extract], PInt 5])
     PNone PNone = Inl (TypeError ''object is not iterable'') \<and>
   \<not> isinstance_list (PStr ''invoice.pdf'') \<and> ex_extract \<noteq> PNone \<and>
   defect (PTuple [PStr ''invoice.pdf'', ex_extract]) = Some (AttributeError ''metadata'') \<and>
   create_invoice_summary_tables ex_gen 0 (PStr ''invoice.pdf'') ex_extract PNone =
     Inl (AttributeError ''metadata'')"
proof -
  have c: "list_all conforms [(ex_parse, ex_extract)]"
    using ex_conforms by (simp add: ex_pairs_def)
  have d: "defect (PInt 5) = Some (TypeError ''object is not iterable'')"
    by (simp add: defect_def)
  have d2: "defect (PTuple [PStr ''invoice.pdf'', ex_extract]) = Some (AttributeError ''metadata'')"
    by (simp add: defect_def parse_defect_def attribute_def)
  have e: "ex_extract \<noteq> PNone" by (simp add: ex_extract_def)
  from malformed_input_raises [where results = "PList [PTuple [ex_parse, ex_extract], PInt 5]"
         and good = "[(ex_parse, ex_extract)]" and bad = "PInt 5" and rest = "[]"
         and err = "TypeError ''object is not iterable''" and gen = ex_gen and n = 0
         and extract_result = PNone and run_id = PNone]
       malformed_input_raises [where results = "PStr ''invoice.pdf''"
         and good = "[]" and bad = "PNone" and rest = "[]"
         and err = "AttributeError ''metadata''" and gen = ex_gen and n = 0
         and extract_result = ex_extract and run_id = PNone]
       c d d2 e
  show ?thesis by (simp add: mk_pair_def)
qed

text \<open>
  Counterexample to C8 as stated: a batch whose only pair has \<open>None\<close> in the place of
  the extract result is accepted; the call does not raise.
\<close>

theorem batch_pair_without_extract_result_counterexample:
  "\<not> isl (create_invoice_summary_tables ex_gen 0 (PList [PTuple [ex_parse, PNone]]) PNone PNone)"
proof -
  have p: "passes [(ex_parse, PNone)] (PList [PTuple [ex_parse, PNone]]) PNone"
    by (simp add: passes_def mk_pair_def)
  have c: "list_all conforms [(ex_parse, PNone)]"
    by (simp add: line_items_value_def extraction_of_def attribute_def)
  from create_conforms(2) [OF p c refl, where gen = ex_gen and n = 0 and run_id = PNone]
  show ?thesis by simp
qed

text \<open>
  Claim C1, as amended. For every document pair that conforms to the data model, in a
  batch or alone, the call returns, and the header row that it builds for the pair and
  hands to \<open>pandas.DataFrame\<close> consists of the four identifying columns followed by
  exactly the columns of the field table, in its order, each holding the null-safe lookup
  of its (group, field) path in the pair's extraction: the value that is there, unchanged,
  and null otherwise. The returned table is the frame of these rows; there pandas gives
  each column a dtype, so a value can come out converted.
\<close>

theorem header_row_null_safe_lookup:
  assumes "passes ps results extract_result" and "list_all conforms ps"
  shows "\<exists>md ch mn li n'.
           invoice_summary_rows gen n results extract_result run_id =
             Inr ((md, ch, mn, li), n') \<and>
           create_invoice_summary_tables gen n results extract_result run_id =
             Inr ((DataFrame md, DataFrame ch, DataFrame mn, DataFrame li), n') \<and>
           map (drop 4) mn = map (\<lambda>pe. header_cells (extraction_of (snd pe))) ps"
proof -
  let ?B = "batch_rows gen (if run_id = PNone then Suc n else n)
              (if run_id = PNone then PStr (gen n) else run_id) ps"
  note c = create_conforms [OF assms refl, where gen = gen and n = n and run_id = run_id]
  show ?thesis
    using c batch_rows_header [of gen _ _ ps]
    by (intro exI [of _ "fst ?B"] exI [of _ "fst (snd ?B)"] exI [of _ "fst (snd (snd ?B))"]
          exI [of _ "snd (snd (snd ?B))"] exI [of _ "(if run_id = PNone then Suc n else n) + length ps"])
       simp
qed

text \<open>
  Witness for C1 as amended: in the example batch the first document's extraction holds
  only \<open>invoice_info.invoice_number\<close>, the second document has no extraction.
\<close>

theorem header_row_null_safe_lookup_witness:
  "passes ex_pairs ex_batch PNone \<and> list_all conforms ex_pairs \<and>
   (\<exists>md ch mn li n'.
      invoice_summary_rows ex_gen 0 ex_batch PNone PNone = Inr ((md, ch, mn, li), n') \<and>
      create_invoice_summary_tables ex_gen 0 ex_batch PNone PNone =
        Inr ((DataFrame md, DataFrame ch, DataFrame mn, DataFrame li), n') \<and>
      map (filter (\<lambda>(c, v). v \<noteq> PNone)) (map (drop 4) mn) =
        [[(''INVOICE_NUMBER'', PStr ''INV-001'')], []])"
proof -
  let ?P = "\<lambda>(c :: string, v). v \<noteq> PNone"
  have v: "map (filter ?P) (map (\<lambda>pe. header_cells (extraction_of (snd pe))) ex_pairs)
          = [[(''INVOICE_NUMBER'', PStr ''INV-001'')], []]"
    by (simp add: ex_pairs_def header_cells_def header_fields_def upper_def extraction_of_def
          attribute_def ex_extract_def ex_extraction_def)
  from header_row_null_safe_lookup [OF ex_passes [of PNone] ex_conforms, of ex_gen 0 PNone]
  obtain md ch mn li n' where
    r: "invoice_summary_rows ex_gen 0 ex_batch PNone PNone = Inr ((md, ch, mn, li), n')" and
    c: "create_invoice_summary_tables ex_gen 0 ex_batch PNone PNone =
          Inr ((DataFrame md, DataFrame ch, DataFrame mn, DataFrame li), n')" and
    h: "map (drop 4) mn = map (\<lambda>pe. header_cells (extraction_of (snd pe))) ex_pairs"
    by blast
  from h v have "map (filter ?P) (map (drop 4) mn) = [[(''INVOICE_NUMBER'', PStr ''INV-001'')], []]"
    by (simp only:)
  with r c have
    "\<exists>md ch mn li n'.
      invoice_summary_rows ex_gen 0 ex_batch PNone PNone = Inr ((md, ch, mn, li), n') \<and>
      create_invoice_summary_tables ex_gen 0 ex_batch PNone PNone =
        Inr ((DataFrame md, DataFrame ch, DataFrame mn, DataFrame li), n') \<and>
      map (filter ?P) (map (drop 4) mn) = [[(''INVOICE_NUMBER'', PStr ''INV-001'')], []]"
    by (intro exI [where x = md] exI [where x = ch] exI [where x = mn] exI [where x = li]
          exI [where x = n'] conjI)
  with ex_passes [of PNone] ex_conforms show ?thesis by (intro conjI)
qed

text \<open>
  Counterexample to C1 as stated: the first document has the integer tax 7, the second
  none; in the returned header table the tax of the first document is the float 7.0 and
  that of the second \<open>nan\<close>.
\<close>

theorem header_value_coerced_counterexample:
  "null_safe_lookup (extraction_of ex_tax_extract) ''totals_summary'' ''tax'' = PInt 7 \<and>
   map (cell ''TAX'')
     (fst (snd (snd (fst (projr
        (create_invoice_summary_tables ex_gen 0 ex_tax_batch PNone PNone)))))) =
     [PFloat 7, PNaN]"
proof -
  have 1: "null_safe_lookup (extraction_of ex_tax_extract) ''totals_summary'' ''tax'' = PInt 7"
    by (simp add: extraction_of_def attribute_def ex_tax_extract_def)
  define B where "B = batch_rows ex_gen (Suc 0) (PStr (ex_gen 0)) ex_tax_pairs"
  define mn where "mn = fst (snd (snd B))"
  from create_conforms(2) [OF ex_tax_passes [of PNone] ex_tax_conforms,
         where gen = ex_gen and n = 0 and run_id = PNone and B = B]
  have c: "fst (snd (snd (fst (projr
             (create_invoice_summary_tables ex_gen 0 ex_tax_batch PNone PNone))))) = DataFrame mn"
    by (simp add: B_def mn_def)
  have mn: "mn =
      [main_data (PStr (ex_gen 0)) (PStr (ex_gen (Suc 0))) (document_name_of ex_parse)
         (version_of ex_parse) (extraction_of ex_tax_extract),
       main_data (PStr (ex_gen 0)) (PStr (ex_gen (Suc (Suc 0)))) (document_name_of ex_parse2)
         (version_of ex_parse2) (extraction_of (PObj [] None))]"
    by (simp add: mn_def B_def ex_tax_pairs_def doc_rows_def)
  have cells: "map (cell ''TAX'') mn = [PInt 7, PNone]"
    unfolding mn
    by (simp add: cell_def main_data_def extraction_of_def attribute_def ex_tax_extract_def)
  have "\<forall>r\<in>set mn. map_of r ''TAX'' \<noteq> None"
    unfolding mn by (simp add: main_data_def)
  from DataFrame_column [OF this] cells
  have "map (cell ''TAX'') (DataFrame mn) = [PFloat 7, PNaN]"
    by (simp add: convert_column_def seen_nothing_def saw_int_def float64_of_int_exact)
  with 1 c show ?thesis by simp
qed

text \<open>
  Claim C3, as amended. There is no fallback from key access to attribute access: the
  source chooses once, by \<open>isinstance(item, dict)\<close>. For an item that is a mapping each
  of the eight fields is the mapping's value at that key, null when the key is absent,
  and the item's attributes are not consulted; for any other item each field is the
  value of the attribute of that name, null when there is none.
\<close>

theorem line_item_lookup_by_item_kind:
  "drop 5 (line_item_row r u d v idx (PDict items attrs)) =
     map (\<lambda>f. (upper f, case map_of items f of Some x \<Rightarrow> x | None \<Rightarrow> PNone)) line_item_fields \<and>
   (\<not> isinstance_dict item \<longrightarrow>
      drop 5 (line_item_row r u d v idx item) =
        map (\<lambda>f. (upper f, case map_of (attrs_of item) f of Some x \<Rightarrow> x | None \<Rightarrow> PNone))
          line_item_fields)"
  by (simp add: line_item_row_def line_item_fields_def item_field_def upper_def
        getattr_default_def)

text \<open>
  Witness for C3 as amended: an object with the attributes \<open>sku\<close> and \<open>quantity\<close>.
\<close>

theorem line_item_lookup_by_item_kind_witness:
  "\<not> isinstance_dict ex_item_obj \<and>
   drop 5 (line_item_row PNone PNone PNone PNone 1 ex_item_obj) =
     [(''LINE_NUMBER'', PNone), (''SKU'', PStr ''A2''), (''DESCRIPTION'', PNone),
      (''QUANTITY'', PInt 5), (''UNIT_PRICE'', PNone), (''PRICE'', PNone), (''AMOUNT'', PNone),
      (''TOTAL'', PNone)]"
  using line_item_lookup_by_item_kind [where item = ex_item_obj and r = PNone and u = PNone
          and d = PNone and v = PNone and idx = 1]
  by (simp add: ex_item_obj_def line_item_fields_def upper_def)

text \<open>
  Counterexample to C3 as stated: an instance of a dict subclass that lacks the key
  \<open>sku\<close> and carries the attribute \<open>sku\<close> gets a null \<open>SKU\<close>, not the attribute's
  value.
\<close>

theorem line_item_attribute_fallback_counterexample:
  "isinstance_dict ex_item_attr_dict \<and>
   dict_get ex_item_attr_dict ''sku'' = PNone \<and>
   getattr ex_item_attr_dict ''sku'' = Inr (PStr ''A2'') \<and>
   map_of (line_item_row PNone PNone PNone PNone 0 ex_item_attr_dict) ''SKU'' = Some PNone"
  by (simp add: ex_item_attr_dict_def getattr_def line_item_row_def item_field_def)

text \<open>
  Claim C4, as amended. The guards of the source test the truth value of grounding and
  box, not their presence. For every document pair that conforms to the data model the
  call returns, and the chunk rows that it builds and hands to \<open>pandas.DataFrame\<close>
  are, chunk by chunk and in order: page and the four coordinates null when the chunk's
  grounding is missing, \<open>None\<close> or otherwise falsy; else page read from grounding (null
  when it has none), the four coordinates null when the box is missing or falsy, and
  otherwise each coordinate read from its own attribute of the box, null when that
  attribute is missing. The returned table is the frame of these rows, in which pandas
  gives each column a dtype.
\<close>

theorem chunk_grounding_defensive:
  assumes "passes ps results extract_result" and "list_all conforms ps"
  shows "\<exists>md ch mn li n'.
           invoice_summary_rows gen n results extract_result run_id =
             Inr ((md, ch, mn, li), n') \<and>
           create_invoice_summary_tables gen n results extract_result run_id =
             Inr ((DataFrame md, DataFrame ch, DataFrame mn, DataFrame li), n') \<and>
           map (\<lambda>row. map (map_of row) grounding_columns) ch =
             concat (map (\<lambda>pe. map (\<lambda>c. map Some (grounding_cells c)) (chunks_of (fst pe))) ps)"
proof -
  let ?B = "batch_rows gen (if run_id = PNone then Suc n else n)
              (if run_id = PNone then PStr (gen n) else run_id) ps"
  note c = create_conforms [OF assms refl, where gen = gen and n = n and run_id = run_id]
  show ?thesis
    using c batch_rows_grounding [of gen _ _ ps]
    by (intro exI [of _ "fst ?B"] exI [of _ "fst (snd ?B)"] exI [of _ "fst (snd (snd ?B))"]
          exI [of _ "snd (snd (snd ?B))"] exI [of _ "(if run_id = PNone then Suc n else n) + length ps"])
       simp
qed

text \<open>
  Witness for C4 as amended: the three chunks of the example batch, one of them with a
  box that has \<open>left\<close> and \<open>top\<close> only.
\<close>

theorem chunk_grounding_defensive_witness:
  "passes ex_pairs ex_batch PNone \<and> list_all conforms ex_pairs \<and>
   (\<exists>md ch mn li n'.
      invoice_summary_rows ex_gen 0 ex_batch PNone PNone = Inr ((md, ch, mn, li), n') \<and>
      create_invoice_summary_tables ex_gen 0 ex_batch PNone PNone =
        Inr ((DataFrame md, DataFrame ch, DataFrame mn, DataFrame li), n') \<and>
      map (\<lambda>row. map (map_of row) grounding_columns) ch =
        [[Some (PInt 0), Some (PFloat 0.5), Some (PFloat 2), Some PNone, Some PNone],
         [Some PNone, Some PNone, Some PNone, Some PNone, Some PNone],
         [Some (PInt 3), Some PNone, Some PNone, Some PNone, Some PNone]])"
proof -
  have v: "concat (map (\<lambda>pe. map (\<lambda>c. map Some (grounding_cells c)) (chunks_of (fst pe))) ex_pairs) =
        [[Some (PInt 0), Some (PFloat 0.5), Some (PFloat 2), Some PNone, Some PNone],
         [Some PNone, Some PNone, Some PNone, Some PNone, Some PNone],
         [Some (PInt 3), Some PNone, Some PNone, Some PNone, Some PNone]]"
    by (simp add: ex_pairs_def chunks_of_def attribute_def ex_parse_def ex_parse2_def
          grounding_cells_def attr_or_null_def ex_chunk_boxed_def ex_chunk_no_grounding_def
          ex_chunk_no_box_def ex_box_def)
  from chunk_grounding_defensive [OF ex_passes [of PNone] ex_conforms, of ex_gen 0 PNone]
  obtain md ch mn li n' where
    r: "invoice_summary_rows ex_gen 0 ex_batch PNone PNone = Inr ((md, ch, mn, li), n')" and
    c: "create_invoice_summary_tables ex_gen 0 ex_batch PNone PNone =
          Inr ((DataFrame md, DataFrame ch, DataFrame mn, DataFrame li), n')" and
    h: "map (\<lambda>row. map (map_of row) grounding_columns) ch =
          concat (map (\<lambda>pe. map (\<lambda>c. map Some (grounding_cells c)) (chunks_of (fst pe))) ex_pairs)"
    by blast
  from h v have "map (\<lambda>row. map (map_of row) grounding_columns) ch =
        [[Some (PInt 0), Some (PFloat 0.5), Some (PFloat 2), Some PNone, Some PNone],
         [Some PNone, Some PNone, Some PNone, Some PNone, Some PNone],
         [Some (PInt 3), Some PNone, Some PNone, Some PNone, Some PNone]]"
    by (simp only:)
  with r c have
    "\<exists>md ch mn li n'.
      invoice_summary_rows ex_gen 0 ex_batch PNone PNone = Inr ((md, ch, mn, li), n') \<and>
      create_invoice_summary_tables ex_gen 0 ex_batch PNone PNone =
        Inr ((DataFrame md, DataFrame ch, DataFrame mn, DataFrame li), n') \<and>
      map (\<lambda>row. map (map_of row) grounding_columns) ch =
        [[Some (PInt 0), Some (PFloat 0.5), Some (PFloat 2), Some PNone, Some PNone],
         [Some PNone, Some PNone, Some PNone, Some PNone, Some PNone],
         [Some (PInt 3), Some PNone, Some PNone, Some PNone, Some PNone]]"
    by (intro exI [where x = md] exI [where x = ch] exI [where x = mn] exI [where x = li]
          exI [where x = n'] conjI)
  with ex_passes [of PNone] ex_conforms show ?thesis by (intro conjI)
qed

text \<open>
  Counterexample to C4 as stated: a grounding that is an empty instance of a dict
  subclass is present and carries the attribute \<open>page\<close>, and the page of its row is
  null. In the example batch, moreover, the pages 0 and 3 come back from the frame as
  floats next to the \<open>nan\<close> of the chunk without grounding.
\<close>

theorem falsy_grounding_counterexample:
  "attribute ex_chunk_falsy ''grounding'' = Some ex_falsy_grounding \<and>
   attribute ex_falsy_grounding ''page'' = Some (PInt 3) \<and>
   map (cell ''page'')
     (fst (snd (fst (projr
        (create_invoice_summary_tables ex_gen 0 ex_parse_falsy (PObj [] None) PNone))))) =
     [PNone] \<and>
   map (cell ''page'')
     (fst (snd (fst (projr (create_invoice_summary_tables ex_gen 0 ex_batch PNone PNone))))) =
     [PFloat 0, PNaN, PFloat 3]"
proof -
  have coerced: "map (cell ''page'')
     (fst (snd (fst (projr (create_invoice_summary_tables ex_gen 0 ex_batch PNone PNone))))) =
     [PFloat 0, PNaN, PFloat 3]"
  proof -
    define B where "B = batch_rows ex_gen (Suc 0) (PStr (ex_gen 0)) ex_pairs"
    define ch where "ch = fst (snd B)"
    from create_conforms(2) [OF ex_passes [of PNone] ex_conforms,
           where gen = ex_gen and n = 0 and run_id = PNone and B = B]
    have c: "fst (snd (fst (projr
               (create_invoice_summary_tables ex_gen 0 ex_batch PNone PNone)))) = DataFrame ch"
      by (simp add: B_def ch_def)
    have "map (\<lambda>row. map (map_of row) grounding_columns) ch =
            concat (map (\<lambda>pe. map (\<lambda>c. map Some (grounding_cells c)) (chunks_of (fst pe)))
              ex_pairs)"
      unfolding ch_def B_def by (rule batch_rows_grounding)
    also have "\<dots> =
        [[Some (PInt 0), Some (PFloat 0.5), Some (PFloat 2), Some PNone, Some PNone],
         [Some PNone, Some PNone, Some PNone, Some PNone, Some PNone],
         [Some (PInt 3), Some PNone, Some PNone, Some PNone, Some PNone]]"
      by (simp add: ex_pairs_def chunks_of_def attribute_def ex_parse_def ex_parse2_def
            grounding_cells_def attr_or_null_def ex_chunk_boxed_def ex_chunk_no_grounding_def
            ex_chunk_no_box_def ex_box_def)
    finally have g: "map (\<lambda>row. map (map_of row) grounding_columns) ch =
        [[Some (PInt 0), Some (PFloat 0.5), Some (PFloat 2), Some PNone, Some PNone],
         [Some PNone, Some PNone, Some PNone, Some PNone, Some PNone],
         [Some (PInt 3), Some PNone, Some PNone, Some PNone, Some PNone]]" .
    have "map (\<lambda>row. map_of row ''page'') ch =
            map hd (map (\<lambda>row. map (map_of row) grounding_columns) ch)"
      by (simp add: grounding_columns_def)
    also have "\<dots> = [Some (PInt 0), Some PNone, Some (PInt 3)]"
      unfolding g by simp
    finally have "map (\<lambda>row. map_of row ''page'') ch = [Some (PInt 0), Some PNone, Some (PInt 3)]" .
    then obtain r0 r1 r2 where ch3: "ch = [r0, r1, r2]" and
      pg: "map_of r0 ''page'' = Some (PInt 0)" "map_of r1 ''page'' = Some PNone"
          "map_of r2 ''page'' = Some (PInt 3)"
      by auto
    then have "\<forall>r\<in>set ch. map_of r ''page'' \<noteq> None" by simp
    from DataFrame_column [OF this] ch3 pg
    have "map (cell ''page'') (DataFrame ch) = convert_column [PInt 0, PNone, PInt 3]"
      by (simp add: cell_def)
    then show ?thesis
      unfolding c
      by (simp add: convert_column_def seen_nothing_def saw_int_def float64_of_int_exact)
  qed
  have p: "passes [(ex_parse_falsy, PObj [] None)] ex_parse_falsy (PObj [] None)"
    by (simp add: passes_def ex_parse_falsy_def)
  have f: "list_all conforms [(ex_parse_falsy, PObj [] None)]"
    by (simp add: conforms_def line_items_value_def extraction_of_def attribute_def
          ex_parse_falsy_def)
  define B where
    "B = batch_rows ex_gen (Suc 0) (PStr (ex_gen 0)) [(ex_parse_falsy, PObj [] None)]"
  define ch where "ch = fst (snd B)"
  from create_conforms(2) [OF p f, where gen = ex_gen and n = 0 and run_id = PNone and B = B]
  have c: "fst (snd (fst (projr
             (create_invoice_summary_tables ex_gen 0 ex_parse_falsy (PObj [] None) PNone)))) =
           DataFrame ch"
    by (simp add: B_def ch_def)
  have ch: "ch = [chunk_row (PStr (ex_gen 0)) (PStr (ex_gen (Suc 0)))
                           (document_name_of ex_parse_falsy) ex_chunk_falsy]"
    by (simp add: ch_def B_def doc_rows_def chunks_of_def attribute_def ex_parse_falsy_def)
  have cells: "map (map_of (chunk_row r u d ex_chunk_falsy)) grounding_columns =
                 [Some PNone, Some PNone, Some PNone, Some PNone, Some PNone]" for r u d
    unfolding chunk_row_grounding
    by (simp add: grounding_cells_def attribute_def ex_chunk_falsy_def ex_falsy_grounding_def)
  then have pg: "map_of (chunk_row r u d ex_chunk_falsy) ''page'' = Some PNone" for r u d
    by (simp add: grounding_columns_def)
  have "\<forall>r\<in>set ch. map_of r ''page'' \<noteq> None" unfolding ch by (simp add: pg)
  from DataFrame_column [OF this]
  have "map (cell ''page'') (DataFrame ch) = convert_column [PNone]"
    unfolding ch by (simp add: cell_def pg)
  then have "map (cell ''page'') (DataFrame ch) = [PNone]"
    by (simp add: convert_column_def seen_nothing_def)
  with c coerced show ?thesis
    by (simp add: attribute_def ex_chunk_falsy_def ex_falsy_grounding_def)
qed

text \<open>
  Claim C2. For every batch of document pairs and every single pair that conform to the
  data model the call returns, and the markdown table and the invoice-header table have
  one row per input document pair, the chunk table has one row per chunk and the
  line-item table one row per line item, summed over the input documents.
\<close>

theorem row_counts:
  assumes "passes ps results extract_result" and "list_all conforms ps"
  shows "\<exists>md ch mn li n'.
           create_invoice_summary_tables gen n results extract_result run_id =
             Inr ((md, ch, mn, li), n') \<and>
           length md = length ps \<and>
           length mn = length ps \<and>
           length ch = sum_list (map (\<lambda>pe. length (chunks_of (fst pe))) ps) \<and>
           length li = sum_list (map (\<lambda>pe. length (line_items_of (snd pe))) ps)"
proof -
  let ?B = "batch_rows gen (if run_id = PNone then Suc n else n)
              (if run_id = PNone then PStr (gen n) else run_id) ps"
  note c = create_conforms(2) [OF assms refl, where gen = gen and n = n and run_id = run_id]
  show ?thesis
    using c batch_rows_lengths [of gen _ _ ps]
    by (intro exI [of _ "DataFrame (fst ?B)"] exI [of _ "DataFrame (fst (snd ?B))"]
          exI [of _ "DataFrame (fst (snd (snd ?B)))"] exI [of _ "DataFrame (snd (snd (snd ?B)))"]
          exI [of _ "(if run_id = PNone then Suc n else n) + length ps"])
       (simp add: DataFrame_length)
qed

text \<open>
  Witness for C2: the example batch of two documents, with two chunks and one chunk, two
  line items and none; and its second document alone.
\<close>

theorem row_counts_witness:
  "passes ex_pairs ex_batch PNone \<and> list_all conforms ex_pairs \<and>
   passes [(ex_parse2, PObj [] None)] ex_parse2 (PObj [] None) \<and>
   list_all conforms [(ex_parse2, PObj [] None)] \<and>
   (\<exists>md ch mn li n'.
      create_invoice_summary_tables ex_gen 0 ex_batch PNone PNone = Inr ((md, ch, mn, li), n') \<and>
      length md = 2 \<and> length mn = 2 \<and> length ch = 3 \<and> length li = 2) \<and>
   (\<exists>md ch mn li n'.
      create_invoice_summary_tables ex_gen 0 ex_parse2 (PObj [] None) PNone =
        Inr ((md, ch, mn, li), n') \<and>
      length md = 1 \<and> length mn = 1 \<and> length ch = 1 \<and> length li = 0)"
proof -
  have 1: "sum_list (map (\<lambda>pe. length (chunks_of (fst pe))) ex_pairs) = 3"
    "sum_list (map (\<lambda>pe. length (line_items_of (snd pe))) ex_pairs) = 2" "length ex_pairs = 2"
    by (simp_all add: ex_pairs_def chunks_of_def line_items_of_def line_items_value_def
          extraction_of_def attribute_def ex_parse_def ex_parse2_def ex_extract_def
          ex_extraction_def)
  have 2: "length (chunks_of ex_parse2) = 1" "length (line_items_of (PObj [] None)) = 0"
    by (simp_all add: chunks_of_def line_items_of_def line_items_value_def
          extraction_of_def attribute_def ex_parse2_def)
  from row_counts [OF ex_passes [of PNone] ex_conforms, of ex_gen 0 PNone]
    row_counts [OF ex_single_passes ex_single_conforms, of ex_gen 0 PNone]
    1 2 ex_passes [of PNone] ex_conforms ex_single_passes ex_single_conforms
  show ?thesis by simp
qed

text \<open>
  Claim C6. Every row of every one of the four returned tables carries the same
  \<open>RUN_ID\<close>: the caller's \<open>run_id\<close> when one is given, otherwise the one identifier
  that the call draws from the generator before the loop.
\<close>

theorem run_id_shared_by_all_rows:
  assumes "create_invoice_summary_tables gen n results extract_result run_id =
             Inr ((md, ch, mn, li), n')"
  shows "\<forall>row\<in>set md \<union> set ch \<union> set mn \<union> set li.
           map_of row ''RUN_ID'' = Some (if run_id = PNone then PStr (gen n) else run_id)"
proof -
  from assms obtain md0 ch0 mn0 li0 where
    r: "invoice_summary_rows gen n results extract_result run_id = Inr ((md0, ch0, mn0, li0), n')"
    and t: "md = DataFrame md0" "ch = DataFrame ch0" "mn = DataFrame mn0" "li = DataFrame li0"
    by (rule create_Inr)
  let ?v = "if run_id = PNone then PStr (gen n) else run_id"
  from rows_run_id [OF r] have
    0: "\<forall>row\<in>set md0. map_of row ''RUN_ID'' = Some ?v" "\<forall>row\<in>set ch0. map_of row ''RUN_ID'' = Some ?v"
    "\<forall>row\<in>set mn0. map_of row ''RUN_ID'' = Some ?v" "\<forall>row\<in>set li0. map_of row ''RUN_ID'' = Some ?v"
    by auto
  have "\<forall>row\<in>set md. map_of row ''RUN_ID'' = Some ?v"
    unfolding t by (rule DataFrame_const_column [OF 0(1)])
  moreover have "\<forall>row\<in>set ch. map_of row ''RUN_ID'' = Some ?v"
    unfolding t by (rule DataFrame_const_column [OF 0(2)])
  moreover have "\<forall>row\<in>set mn. map_of row ''RUN_ID'' = Some ?v"
    unfolding t by (rule DataFrame_const_column [OF 0(3)])
  moreover have "\<forall>row\<in>set li. map_of row ''RUN_ID'' = Some ?v"
    unfolding t by (rule DataFrame_const_column [OF 0(4)])
  ultimately show ?thesis by blast
qed

text \<open>
  Witness for C6: the nine rows of the example batch, called without run id.
\<close>

theorem run_id_shared_by_all_rows_witness:
  "create_invoice_summary_tables ex_gen 0 ex_batch PNone PNone =
     Inr ((fst ex_tables, fst (snd ex_tables), fst (snd (snd ex_tables)),
           snd (snd (snd ex_tables))), 3) \<and>
   length (fst ex_tables @ fst (snd ex_tables) @ fst (snd (snd ex_tables)) @
           snd (snd (snd ex_tables))) = 9 \<and>
   map (\<lambda>row. map_of row ''RUN_ID'')
     (fst ex_tables @ fst (snd ex_tables) @ fst (snd (snd ex_tables)) @
      snd (snd (snd ex_tables))) =
     replicate 9 (Some (PStr ''u''))"
proof -
  let ?all = "fst ex_tables @ fst (snd ex_tables) @ fst (snd (snd ex_tables)) @
              snd (snd (snd ex_tables))"
  have len: "length ?all = 9" using ex_lengths by simp
  from run_id_shared_by_all_rows [OF ex_call]
  have "\<forall>row\<in>set ?all. map_of row ''RUN_ID'' = Some (PStr ''u'')"
    by (simp add: ex_gen_def)
  then have "map (\<lambda>row. map_of row ''RUN_ID'') ?all = replicate (length ?all) (Some (PStr ''u''))"
    by (rule map_const_replicate)
  with len have "map (\<lambda>row. map_of row ''RUN_ID'') ?all = replicate 9 (Some (PStr ''u''))"
    by (simp only:)
  with ex_call len show ?thesis by (intro conjI)
qed

text \<open>
  Claim C7. Each input document gets one identifier of its own, drawn from the generator
  at the start of its pass through the loop. It is the \<open>INVOICE_UUID\<close> of the
  document's row in the markdown table and in the invoice-header table, and of every row
  of the document's block of the chunk table and of the line-item table. For a generator
  that never returns the same identifier twice (what \<open>uuid.uuid4\<close> is relied on for),
  the identifiers of one call are pairwise distinct, and they differ from those of any
  later call on the same generator.
\<close>

theorem invoice_uuid_join_key:
  assumes inj: "inj gen"
    and c1: "create_invoice_summary_tables gen n results extract_result run_id =
               Inr ((md, ch, mn, li), n')"
    and ps: "input_pairs results extract_result = Inr ps"
    and later: "n' \<le> m"
    and c2: "create_invoice_summary_tables gen m results2 extract_result2 run_id2 =
               Inr ((md2, ch2, mn2, li2), m')"
  shows "distinct (invoice_ids gen n run_id (length ps)) \<and>
         map (\<lambda>row. map_of row ''INVOICE_UUID'') md =
           map Some (invoice_ids gen n run_id (length ps)) \<and>
         map (\<lambda>row. map_of row ''INVOICE_UUID'') mn =
           map Some (invoice_ids gen n run_id (length ps)) \<and>
         (\<exists>chs lis.
            ch = concat chs \<and> map length chs = map (\<lambda>(p, e). num_chunks p) ps \<and>
            li = concat lis \<and> map length lis = map (\<lambda>(p, e). num_line_items e) ps \<and>
            (\<forall>i<length ps. \<forall>row\<in>set (chs ! i) \<union> set (lis ! i).
               map_of row ''INVOICE_UUID'' = Some (invoice_ids gen n run_id (length ps) ! i))) \<and>
         (\<forall>row\<in>set md \<union> set ch \<union> set mn \<union> set li.
            \<forall>row2\<in>set md2 \<union> set ch2 \<union> set mn2 \<union> set li2.
              map_of row ''INVOICE_UUID'' \<noteq> map_of row2 ''INVOICE_UUID'')"
proof -
  let ?g = "\<lambda>row. map_of row ''INVOICE_UUID''"
  let ?ids = "invoice_ids gen n run_id (length ps)"
  from c1 obtain md0 ch0 mn0 li0 where
    r: "invoice_summary_rows gen n results extract_result run_id = Inr ((md0, ch0, mn0, li0), n')"
    and t: "md = DataFrame md0" "ch = DataFrame ch0" "mn = DataFrame mn0" "li = DataFrame li0"
    by (rule create_Inr)
  have "invoice_summary_rows gen n' (PList []) PNone (PStr []) = Inr (([], [], [], []), n')"
    by (simp add: invoice_summary_rows_def results_list_def)
  from rows_invoice_uuid_join_key [OF inj r ps order_refl this] obtain chs0 lis0 where
    1: "distinct ?ids" and
    md0: "map ?g md0 = map Some ?ids" and
    mn0: "map ?g mn0 = map Some ?ids" and
    ch0: "ch0 = concat chs0" "map length chs0 = map (\<lambda>(p, e). num_chunks p) ps" and
    li0: "li0 = concat lis0" "map length lis0 = map (\<lambda>(p, e). num_line_items e) ps" and
    b0: "\<forall>i<length ps. \<forall>row\<in>set (chs0 ! i) \<union> set (lis0 ! i). ?g row = Some (?ids ! i)"
    by blast
  have 2: "map ?g md = map Some ?ids"
    unfolding t using rows_uuid_kept [OF r, of md0] md0 by simp
  have 3: "map ?g mn = map Some ?ids"
    unfolding t using rows_uuid_kept [OF r, of mn0] mn0 by simp
  have "map ?g ch = map ?g (concat chs0)"
    unfolding t using rows_uuid_kept [OF r, of ch0] ch0(1) by simp
  from blocks_transfer [OF this] obtain chs where
    chs: "ch = concat chs" "map length chs = map length chs0"
      "\<forall>i<length chs0. map ?g (chs ! i) = map ?g (chs0 ! i)"
    by blast
  have "map ?g li = map ?g (concat lis0)"
    unfolding t using rows_uuid_kept [OF r, of li0] li0(1) by simp
  from blocks_transfer [OF this] obtain lis where
    lis: "li = concat lis" "map length lis = map length lis0"
      "\<forall>i<length lis0. map ?g (lis ! i) = map ?g (lis0 ! i)"
    by blast
  have lens: "length chs0 = length ps" "length lis0 = length ps"
    using ch0(2) li0(2) by (metis length_map)+
  have 6: "\<forall>i<length ps. \<forall>row\<in>set (chs ! i) \<union> set (lis ! i). ?g row = Some (?ids ! i)"
  proof (intro allI impI ballI)
    fix i row assume i: "i < length ps" and row: "row \<in> set (chs ! i) \<union> set (lis ! i)"
    then have "?g row \<in> set (map ?g (chs ! i)) \<union> set (map ?g (lis ! i))" by auto
    then have "?g row \<in> set (map ?g (chs0 ! i)) \<union> set (map ?g (lis0 ! i))"
      using chs(3) lis(3) i lens by simp
    then obtain row0 where "row0 \<in> set (chs0 ! i) \<union> set (lis0 ! i)" "?g row = ?g row0" by auto
    with b0 i show "?g row = Some (?ids ! i)" by simp
  qed
  have 7: "\<forall>row\<in>set md \<union> set ch \<union> set mn \<union> set li.
             \<forall>row2\<in>set md2 \<union> set ch2 \<union> set mn2 \<union> set li2. ?g row \<noteq> ?g row2"
  proof (intro ballI)
    fix row row2
    assume "row \<in> set md \<union> set ch \<union> set mn \<union> set li"
      and "row2 \<in> set md2 \<union> set ch2 \<union> set mn2 \<union> set li2"
    with create_rows_drawn [OF c1] create_rows_drawn [OF c2] obtain k k2 where
      "k < n'" "?g row = Some (PStr (gen k))" "m \<le> k2" "?g row2 = Some (PStr (gen k2))"
      by blast
    moreover from this later have "gen k \<noteq> gen k2"
      using inj by (auto dest: injD)
    ultimately show "?g row \<noteq> ?g row2" by simp
  qed
  from 1 2 3 chs(1) lis(1) chs(2) lis(2) ch0(2) li0(2) 6 7 show ?thesis
    by (intro conjI exI [of _ chs] exI [of _ lis]) simp_all
qed

text \<open>
  Witness for C7: the example batch, followed by a single document call that starts in
  the generator state the first call left.
\<close>

theorem invoice_uuid_join_key_witness:
  "inj ex_gen \<and>
   create_invoice_summary_tables ex_gen 0 ex_batch PNone PNone =
     Inr ((fst ex_tables, fst (snd ex_tables), fst (snd (snd ex_tables)),
           snd (snd (snd ex_tables))), 3) \<and>
   input_pairs ex_batch PNone = Inr ex_pairs \<and>
   (\<exists>md2 ch2 mn2 li2.
      create_invoice_summary_tables ex_gen 3 ex_parse2 (PObj [] None) (PStr ''run-2'') =
        Inr ((md2, ch2, mn2, li2), 4)) \<and>
   invoice_ids ex_gen 0 PNone 2 = [PStr ''uu'', PStr ''uuu''] \<and>
   map (\<lambda>row. map_of row ''INVOICE_UUID'') (fst ex_tables) =
     [Some (PStr ''uu''), Some (PStr ''uuu'')] \<and>
   map (\<lambda>row. map_of row ''INVOICE_UUID'') (fst (snd (snd ex_tables))) =
     [Some (PStr ''uu''), Some (PStr ''uuu'')]"
proof -
  have ids: "invoice_ids ex_gen 0 PNone 2 = [PStr ''uu'', PStr ''uuu'']"
    by (simp add: invoice_ids_def ex_gen_def eval_nat_numeral)
  have l: "length ex_pairs = 2" by (simp add: ex_pairs_def)
  from ex_call2 obtain md2 ch2 mn2 li2 where
    c2: "create_invoice_summary_tables ex_gen 3 ex_parse2 (PObj [] None) (PStr ''run-2'') =
           Inr ((md2, ch2, mn2, li2), 4)"
    by blast
  from invoice_uuid_join_key [OF inj_ex_gen ex_call ex_input_pairs order_refl c2]
  have "map (\<lambda>row. map_of row ''INVOICE_UUID'') (fst ex_tables) =
          map Some (invoice_ids ex_gen 0 PNone 2)"
    and "map (\<lambda>row. map_of row ''INVOICE_UUID'') (fst (snd (snd ex_tables))) =
          map Some (invoice_ids ex_gen 0 PNone 2)"
    by (simp_all add: l)
  with ids inj_ex_gen ex_call ex_input_pairs ex_call2 show ?thesis by simp
qed

end
